theory Spec2Isabelle
  imports Main "HOL-Library.Sublist" "HOL-Library.Product_Lexorder"
begin

section \<open>Python strings\<close>

text \<open>
  A Python \<^verbatim>\<open>str\<close> is modelled as the list of its code points, taken below 256.
  \<^verbatim>\<open>str.strip()\<close> removes the characters for which \<^verbatim>\<open>str.isspace\<close> holds
  (below 256: 9 to 13, 28 to 32, 133 and 160); \<^verbatim>\<open>str.lower()\<close> maps A to Z and the
  upper-case letters of Latin-1 (192 to 222 except 215) to the code point 32 above.
\<close>

definition is_space :: "char \<Rightarrow> bool" where
  "is_space c =
     (let n = (of_char c :: nat)
      in (9 \<le> n \<and> n \<le> 13) \<or> (28 \<le> n \<and> n \<le> 32) \<or> n = 133 \<or> n = 160)"

definition strip :: "string \<Rightarrow> string" where
  "strip s = rev (dropWhile is_space (rev (dropWhile is_space s)))"

definition lower_char :: "char \<Rightarrow> char" where
  "lower_char c =
     (let n = (of_char c :: nat)
      in if (65 \<le> n \<and> n \<le> 90) \<or> (192 \<le> n \<and> n \<le> 222 \<and> n \<noteq> 215)
         then char_of (n + 32) else c)"

definition lower :: "string \<Rightarrow> string" where
  "lower s = map lower_char s"

definition endswith :: "string \<Rightarrow> string \<Rightarrow> bool" where
  "endswith s t = (length t \<le> length s \<and> drop (length s - length t) s = t)"

text \<open>\<^verbatim>\<open>sep.join(xs)\<close> on a list of strings.\<close>

fun join :: "string \<Rightarrow> string list \<Rightarrow> string" where
  "join sep [] = []"
| "join sep [x] = x"
| "join sep (x # y # ys) = x @ sep @ join sep (y # ys)"

section \<open>Decoded JSON values and exceptions\<close>

text \<open>
  What \<^verbatim>\<open>json.loads\<close> returns: \<^verbatim>\<open>None\<close>, a bool, an int, a str, a list, or a dict
  (its items in insertion order, the keys distinct). JSON numbers are kept as integers,
  which is what the wire protocol carries (rows, cols, row, col).
\<close>

datatype json =
    JNull
  | JBool bool
  | JInt int
  | JStr string
  | JArr "json list"
  | JObj "(string \<times> json) list"

text \<open>
  The exceptions the program can raise. \<open>RuntimeError\<close> carries the message the source
  builds and \<open>OSError\<close> the text of the error a file-system call raised; the other
  three are raised by the interpreter on a value of the wrong shape.
\<close>

datatype pyexc =
    RuntimeError string
  | OSError string
  | AttributeError
  | KeyError string
  | TypeError

section \<open>The environment of a call\<close>

text \<open>
  How one \<^verbatim>\<open>subprocess.Popen\<close> followed by \<^verbatim>\<open>communicate\<close> ends: the three
  \<^verbatim>\<open>except\<close> clauses of the source in their order (with the text of the exception where
  the source prints it), or the captured standard output and standard error.
\<close>

datatype outcome =
    NotFound string
  | TimedOut
  | StartFailed string
  | Completed string string

datatype mode = Stdin | Arg

text \<open>
  One launch as the operating system sees it: the argument vector, the text written to
  standard input (\<open>None\<close> for \<^verbatim>\<open>subprocess.DEVNULL\<close>), and how it ended.
\<close>

datatype launch =
  Launch (l_mode: mode) (l_argv: "string list") (l_stdin: "string option") (l_outcome: outcome)

text \<open>
  The library functions and the outside world the source calls, as parameters:
  \<^item> \<open>path_str path\<close> is \<^verbatim>\<open>str(Path(path))\<close>, \<open>path_suffix path\<close> is
    \<^verbatim>\<open>Path(path).suffix\<close>, \<open>path_exists w path\<close> is \<^verbatim>\<open>Path(path).exists()\<close> in the
    world \<open>w\<close>: \<^verbatim>\<open>exists\<close> answers \<^verbatim>\<open>False\<close> when \<^verbatim>\<open>stat\<close> finds no such file, and
    lets every other \<^verbatim>\<open>OSError\<close> of \<^verbatim>\<open>stat\<close> through (a name that is too long, a
    directory that may not be searched), which is \<open>Inl\<close> with the text of the error;
  \<^item> \<open>popen w argv stdin\<close> starts the process in the world \<open>w\<close>, waits for it up to the
    timeout (killing it when the timeout expires) and returns the outcome with the world
    afterwards;
  \<^item> \<open>loads\<close> is \<^verbatim>\<open>json.loads\<close> (\<open>Inl\<close> the text of the exception it raised), \<open>dumps\<close> is
    \<^verbatim>\<open>json.dumps\<close>;
  \<^item> \<open>str_container\<close> is \<^verbatim>\<open>str()\<close> on a decoded list or dict and \<open>interp_text\<close> the
    message text of an exception raised by the interpreter.
\<close>

record 'w env =
  path_str :: "string \<Rightarrow> string"
  path_suffix :: "string \<Rightarrow> string"
  path_exists :: "'w \<Rightarrow> string \<Rightarrow> string + bool"
  popen :: "'w \<Rightarrow> string list \<Rightarrow> string option \<Rightarrow> outcome \<times> 'w"
  loads :: "string \<Rightarrow> string + json"
  dumps :: "json \<Rightarrow> string"
  str_container :: "json \<Rightarrow> string"
  interp_text :: "pyexc \<Rightarrow> string"

section \<open>call_logic: the candidate commands (lines 36 to 56)\<close>

definition dotnet_exe :: string where
  "dotnet_exe =
     ''C:'' @ CHR 0x5C # ''Program Files'' @ CHR 0x5C # ''dotnet'' @ CHR 0x5C # ''dotnet.exe''"

text \<open>
  The test of line 41: \<^verbatim>\<open>or\<close> asks \<^verbatim>\<open>p.exists()\<close> only when the string test is false.
\<close>

definition dll_indicated :: "'w env \<Rightarrow> 'w \<Rightarrow> string \<Rightarrow> pyexc + bool" where
  "dll_indicated env w path =
     (if endswith (lower (path_str env path)) ''.dll'' then Inr True
      else (case path_exists env w path of
              Inl e \<Rightarrow> Inl (OSError e)
            | Inr ex \<Rightarrow> Inr (ex \<and> lower (path_suffix env path) = ''.dll'')))"

text \<open>The test of line 46.\<close>

definition exe_present :: "'w env \<Rightarrow> 'w \<Rightarrow> string \<Rightarrow> pyexc + bool" where
  "exe_present env w path =
     (case path_exists env w path of
        Inl e \<Rightarrow> Inl (OSError e)
      | Inr ex \<Rightarrow> Inr (ex \<and> lower (path_suffix env path) = ''.exe''))"

definition resolve_candidates :: "'w env \<Rightarrow> 'w \<Rightarrow> string \<Rightarrow> pyexc + string list list" where
  "resolve_candidates env w path =
     (let p = path_str env path
      in case dll_indicated env w path of
           Inl e \<Rightarrow> Inl e
         | Inr dll \<Rightarrow>
             (case exe_present env w path of
                Inl e \<Rightarrow> Inl e
              | Inr exe \<Rightarrow>
                  (let candidates =
                         (if dll then [[''dotnet'', p], [dotnet_exe, p]] else [])
                           @ (if exe then [[p]] else [])
                   in Inr (if candidates = []
                           then (if endswith (lower p) ''.dll''
                                 then [[''dotnet'', p], [dotnet_exe, p]]
                                 else [[p], [''dotnet'', p]])
                           else candidates))))"

section \<open>call_logic: the attempts (lines 58 to 120)\<close>

definition mode_tag :: "mode \<Rightarrow> string" where
  "mode_tag m = (case m of Stdin \<Rightarrow> ''stdin'' | Arg \<Rightarrow> ''arg'')"

text \<open>The line an \<^verbatim>\<open>except\<close> clause appends to \<^verbatim>\<open>last_err\<close>.\<close>

definition failure_diag :: "mode \<Rightarrow> string list \<Rightarrow> outcome \<Rightarrow> string list" where
  "failure_diag m argv out =
     (case out of
        NotFound fe \<Rightarrow> [''Command not found: '' @ join '' '' argv @ '' -> '' @ fe]
      | TimedOut \<Rightarrow>
          [''Timeout when running: '' @ join '' '' argv @ '' ('' @ mode_tag m @ '')'']
      | StartFailed e \<Rightarrow>
          [''Failed to start '' @ join '' '' argv @ '' ('' @ mode_tag m @ ''): '' @ e]
      | Completed so se \<Rightarrow> [])"

text \<open>\<^verbatim>\<open>stdout, stderr\<close> after the \<^verbatim>\<open>try\<close>: both \<^verbatim>\<open>None\<close> after an exception.\<close>

definition captured :: "outcome \<Rightarrow> string option \<times> string option" where
  "captured out = (case out of Completed so se \<Rightarrow> (Some so, Some se) | _ \<Rightarrow> (None, None))"

text \<open>\<^verbatim>\<open>if stderr and stderr.strip(): last_err.append(...)\<close>\<close>

definition stderr_diag :: "mode \<Rightarrow> string list \<Rightarrow> string option \<Rightarrow> string list" where
  "stderr_diag m argv stderr =
     (case stderr of
        None \<Rightarrow> []
      | Some se \<Rightarrow>
          if se \<noteq> [] \<and> strip se \<noteq> []
          then [''Command: '' @ join '' '' argv @ '' ('' @ mode_tag m @ '') produced stderr: ''
                  @ strip se]
          else [])"

text \<open>
  \<^verbatim>\<open>if stdout and stdout.strip():\<close> return the decoded value, or raise \<^verbatim>\<open>RuntimeError\<close>
  when decoding fails. \<open>None\<close> when the test is false and the loop goes on.
\<close>

definition parse_error :: "mode \<Rightarrow> string list \<Rightarrow> string \<Rightarrow> string \<Rightarrow> string option \<Rightarrow> string" where
  "parse_error m argv e so stderr =
     ''Failed to parse JSON from command '' @ join '' '' argv @ '' ('' @ mode_tag m @ ''): '' @ e
       @ ''\<newline>Raw stdout: '' @ so
       @ ''\<newline>Stderr: '' @ (case stderr of Some se \<Rightarrow> se | None \<Rightarrow> ''None'')"

definition read_stdout ::
  "'w env \<Rightarrow> mode \<Rightarrow> string list \<Rightarrow> string option \<Rightarrow> string option \<Rightarrow> (pyexc + json) option" where
  "read_stdout env m argv stdout stderr =
     (case stdout of
        None \<Rightarrow> None
      | Some so \<Rightarrow>
          if so \<noteq> [] \<and> strip so \<noteq> []
          then (case loads env (strip so) of
                  Inr v \<Rightarrow> Some (Inr v)
                | Inl e \<Rightarrow> Some (Inl (RuntimeError (parse_error m argv e so stderr))))
          else None)"

text \<open>
  One delivery attempt. The source writes this block twice, once per mode; the two copies
  differ in the argument vector, the standard input and the tag in the messages.
\<close>

definition attempt ::
  "'w env \<Rightarrow> mode \<Rightarrow> string list \<Rightarrow> string option \<Rightarrow> 'w \<Rightarrow> string list
     \<Rightarrow> (pyexc + json) option \<times> string list \<times> launch \<times> 'w" where
  "attempt env m argv inp w last_err =
     (case popen env w argv inp of
        (out, w') \<Rightarrow>
          (case captured out of
             (stdout, stderr) \<Rightarrow>
               (read_stdout env m argv stdout stderr,
                last_err @ failure_diag m argv out @ stderr_diag m argv stderr,
                Launch m argv inp out,
                w')))"

definition exhausted :: "string list \<Rightarrow> pyexc" where
  "exhausted last_err =
     RuntimeError (''No valid response from logic program. Attempts:\<newline>''
                     @ join ''\<newline>'' last_err)"

text \<open>
  The loop over the candidates: standard input first, then the payload as one more
  argument. The result, the launches made (in order) and the world afterwards.
\<close>

fun try_candidates ::
  "'w env \<Rightarrow> string \<Rightarrow> string list list \<Rightarrow> 'w \<Rightarrow> string list
     \<Rightarrow> (pyexc + json) \<times> launch list \<times> 'w" where
  "try_candidates env pj [] w last_err = (Inl (exhausted last_err), [], w)"
| "try_candidates env pj (cmd # rest) w last_err =
     (case attempt env Stdin cmd (Some pj) w last_err of
        (Some r, le1, l1, w1) \<Rightarrow> (r, [l1], w1)
      | (None, le1, l1, w1) \<Rightarrow>
          (case attempt env Arg (cmd @ [pj]) None w1 le1 of
             (Some r, le2, l2, w2) \<Rightarrow> (r, [l1, l2], w2)
           | (None, le2, l2, w2) \<Rightarrow>
               (case try_candidates env pj rest w2 le2 of
                  (r, ls, w3) \<Rightarrow> (r, l1 # l2 # ls, w3))))"

text \<open>
  call_logic as a whole. An error of \<^verbatim>\<open>p.exists()\<close> leaves the function before any
  launch. The \<^verbatim>\<open>timeout\<close> argument keeps its default in every call of the source and
  is part of \<open>popen\<close>.
\<close>

definition call_logic ::
  "'w env \<Rightarrow> string \<Rightarrow> json \<Rightarrow> 'w \<Rightarrow> (pyexc + json) \<times> launch list \<times> 'w" where
  "call_logic env path payload w =
     (case resolve_candidates env w path of
        Inl e \<Rightarrow> (Inl e, [], w)
      | Inr candidates \<Rightarrow> try_candidates env (dumps env payload) candidates w [])"


section \<open>Python operations on decoded values\<close>

text \<open>\<^verbatim>\<open>obj.get(key, default)\<close>: only a dict has the method.\<close>

fun py_get :: "json \<Rightarrow> string \<Rightarrow> json \<Rightarrow> pyexc + json" where
  "py_get (JObj kvs) k d = Inr (case map_of kvs k of Some v \<Rightarrow> v | None \<Rightarrow> d)"
| "py_get _ k d = Inl AttributeError"

text \<open>\<^verbatim>\<open>obj[key]\<close> with a string key.\<close>

fun subscript :: "json \<Rightarrow> string \<Rightarrow> pyexc + json" where
  "subscript (JObj kvs) k = (case map_of kvs k of Some v \<Rightarrow> Inr v | None \<Rightarrow> Inl (KeyError k))"
| "subscript _ k = Inl TypeError"

text \<open>The truth value of an object in \<^verbatim>\<open>if x:\<close> and \<^verbatim>\<open>if not x:\<close>.\<close>

fun truthy :: "json \<Rightarrow> bool" where
  "truthy JNull = False"
| "truthy (JBool b) = b"
| "truthy (JInt i) = (i \<noteq> 0)"
| "truthy (JStr s) = (s \<noteq> [])"
| "truthy (JArr xs) = (xs \<noteq> [])"
| "truthy (JObj kvs) = (kvs \<noteq> [])"

text \<open>
  \<^verbatim>\<open>for s in x\<close>: the elements of a list, the characters of a str, the keys of a dict;
  anything else is not iterable.
\<close>

fun iterate :: "json \<Rightarrow> pyexc + json list" where
  "iterate (JArr xs) = Inr xs"
| "iterate (JStr s) = Inr (map (\<lambda>c. JStr [c]) s)"
| "iterate (JObj kvs) = Inr (map (\<lambda>kv. JStr (fst kv)) kvs)"
| "iterate _ = Inl TypeError"

text \<open>
  A value as a member of a tuple in a \<^verbatim>\<open>set\<close>: lists and dicts are unhashable, and
  \<^verbatim>\<open>True\<close> and \<^verbatim>\<open>False\<close> are equal to 1 and 0 and hash alike.
\<close>

datatype hkey = HNone | HInt int | HStr string

fun hashable :: "json \<Rightarrow> pyexc + hkey" where
  "hashable JNull = Inr HNone"
| "hashable (JBool b) = Inr (HInt (if b then 1 else 0))"
| "hashable (JInt i) = Inr (HInt i)"
| "hashable (JStr s) = Inr (HStr s)"
| "hashable _ = Inl TypeError"

text \<open>\<^verbatim>\<open>x + 1\<close> as the bound of a \<^verbatim>\<open>range\<close>: defined on int and bool only.\<close>

fun int_like :: "json \<Rightarrow> int option" where
  "int_like (JInt i) = Some i"
| "int_like (JBool b) = Some (if b then 1 else 0)"
| "int_like _ = None"

text \<open>\<^verbatim>\<open>str(i)\<close> on an int.\<close>

definition digit_char :: "nat \<Rightarrow> char" where
  "digit_char n = char_of (48 + n)"

fun str_nat :: "nat \<Rightarrow> string" where
  "str_nat n = (if n < 10 then [digit_char n] else str_nat (n div 10) @ [digit_char (n mod 10)])"

definition str_int :: "int \<Rightarrow> string" where
  "str_int i = (if i < 0 then CHR ''-'' # str_nat (nat (- i)) else str_nat (nat i))"

text \<open>\<^verbatim>\<open>str(x)\<close>, which is also what \<^verbatim>\<open>{x}\<close> in an f-string gives.\<close>

definition py_str :: "'w env \<Rightarrow> json \<Rightarrow> string" where
  "py_str env v =
     (case v of
        JNull \<Rightarrow> ''None''
      | JBool b \<Rightarrow> (if b then ''True'' else ''False'')
      | JInt i \<Rightarrow> str_int i
      | JStr s \<Rightarrow> s
      | _ \<Rightarrow> str_container env v)"

definition str_exc :: "'w env \<Rightarrow> pyexc \<Rightarrow> string" where
  "str_exc env e =
     (case e of RuntimeError m \<Rightarrow> m | OSError m \<Rightarrow> m | _ \<Rightarrow> interp_text env e)"





section \<open>The window: CinemaUI\<close>

text \<open>
  What the operator is shown or asked, in order: the \<^verbatim>\<open>messagebox\<close> calls with their
  title and message, and the two questions (\<^verbatim>\<open>simpledialog.askstring\<close>,
  \<^verbatim>\<open>messagebox.askyesno\<close>), whose answers are arguments of the handlers. A message is a
  decoded value because the source passes \<^verbatim>\<open>resp.get("message", ...)\<close> on as it is.
\<close>

datatype dialog =
    ShowInfo string json
  | ShowWarning string json
  | ShowError string json
  | AskString string string
  | AskYesNo string string

text \<open>
  The attributes of the window the handlers read and write (\<open>buttons\<close> holds the keys of
  the button dictionary in creation order, \<open>status\<close> the text of the status label),
  together with the world outside, the launches made so far and the dialogs shown so far.
  The colours and reliefs of the buttons are not modelled, and the calls into Tk (creating
  and configuring widgets, showing dialogs) are taken to succeed.
\<close>

record 'w app =
  logic_path :: string
  rows :: json
  cols :: json
  buttons :: "(int \<times> int) list"
  selected :: "(int \<times> int) set"
  reserved_set :: "(hkey \<times> hkey) set"
  status :: string
  world :: 'w
  launched :: "launch list"
  shown :: "dialog list"

text \<open>The attributes as \<^verbatim>\<open>__init__\<close> sets them before the first refresh.\<close>

definition initial_app :: "string \<Rightarrow> 'w \<Rightarrow> 'w app" where
  "initial_app path w =
     \<lparr>logic_path = path, rows = JInt 6, cols = JInt 10, buttons = [], selected = {},
      reserved_set = {}, status = [], world = w, launched = [], shown = []\<rparr>"

definition show_dialog :: "dialog \<Rightarrow> 'w app \<Rightarrow> 'w app" where
  "show_dialog d app = app\<lparr>shown := shown app @ [d]\<rparr>"

text \<open>A call of \<^verbatim>\<open>call_logic(self.logic_path, payload)\<close> from a handler.\<close>

definition invoke :: "'w env \<Rightarrow> json \<Rightarrow> 'w app \<Rightarrow> (pyexc + json) \<times> 'w app" where
  "invoke env payload app =
     (case call_logic env (logic_path app) payload (world app) of
        (res, ls, w') \<Rightarrow> (res, app\<lparr>world := w', launched := launched app @ ls\<rparr>))"

text \<open>make_grid (lines 181 to 190): the dictionary is cleared, then filled row by row.\<close>

definition make_grid :: "'w app \<Rightarrow> pyexc option \<times> 'w app" where
  "make_grid app =
     (let app0 = app\<lparr>buttons := []\<rparr>
      in case int_like (rows app0) of
           None \<Rightarrow> (Some TypeError, app0)
         | Some n \<Rightarrow>
             if n < 1 then (None, app0)
             else (case int_like (cols app0) of
                     None \<Rightarrow> (Some TypeError, app0)
                   | Some m \<Rightarrow>
                       (None, app0\<lparr>buttons := concat (map (\<lambda>r. map (\<lambda>c. (r, c)) [1..m]) [1..n])\<rparr>)))"

text \<open>toggle_select (lines 192 to 199) and clear_selection (lines 208 to 211).\<close>

definition toggle_select :: "int \<Rightarrow> int \<Rightarrow> 'w app \<Rightarrow> 'w app" where
  "toggle_select r c app =
     (if (r, c) \<in> selected app
      then app\<lparr>selected := selected app - {(r, c)}\<rparr>
      else app\<lparr>selected := insert (r, c) (selected app)\<rparr>)"

definition clear_selection :: "'w app \<Rightarrow> 'w app" where
  "clear_selection app = app\<lparr>selected := {}, status := ''Selection cleared.''\<rparr>"

text \<open>refresh_layout (lines 216 to 245).\<close>

definition layout_payload :: "'w app \<Rightarrow> json" where
  "layout_payload app =
     JObj [(''action'', JStr ''get_layout''), (''rows'', rows app), (''cols'', cols app)]"

text \<open>\<^verbatim>\<open>(s["row"], s["col"])\<close> as a member of the set being built.\<close>

definition seat_tuple :: "json \<Rightarrow> pyexc + hkey \<times> hkey" where
  "seat_tuple s =
     (case subscript s ''row'' of
        Inl e \<Rightarrow> Inl e
      | Inr r \<Rightarrow>
          (case subscript s ''col'' of
             Inl e \<Rightarrow> Inl e
           | Inr c \<Rightarrow>
               (case hashable r of
                  Inl e \<Rightarrow> Inl e
                | Inr hr \<Rightarrow> (case hashable c of Inl e \<Rightarrow> Inl e | Inr hc \<Rightarrow> Inr (hr, hc)))))"

fun seat_set :: "json list \<Rightarrow> pyexc + (hkey \<times> hkey) set" where
  "seat_set [] = Inr {}"
| "seat_set (s # ss) =
     (case seat_tuple s of
        Inl e \<Rightarrow> Inl e
      | Inr t \<Rightarrow> (case seat_set ss of Inl e \<Rightarrow> Inl e | Inr S \<Rightarrow> Inr (insert t S)))"

text \<open>Lines 233 to 245: the statements after the two checks of the response.\<close>

definition apply_layout :: "json \<Rightarrow> 'w app \<Rightarrow> pyexc option \<times> 'w app" where
  "apply_layout layout app1 =
     (case py_get layout ''rows'' (rows app1) of
        Inl e \<Rightarrow> (Some e, app1)
      | Inr rws \<Rightarrow>
          (let app2 = app1\<lparr>rows := rws\<rparr>
           in case py_get layout ''cols'' (cols app2) of
                Inl e \<Rightarrow> (Some e, app2)
              | Inr cls \<Rightarrow>
                  (case make_grid (app2\<lparr>cols := cls\<rparr>) of
                     (Some e, app4) \<Rightarrow> (Some e, app4)
                   | (None, app4) \<Rightarrow>
                       (case py_get layout ''reserved'' (JArr []) of
                          Inl e \<Rightarrow> (Some e, app4)
                        | Inr reserved \<Rightarrow>
                            (case iterate reserved of
                               Inl e \<Rightarrow> (Some e, app4)
                             | Inr items \<Rightarrow>
                                 (case seat_set items of
                                    Inl e \<Rightarrow> (Some e, app4)
                                  | Inr S \<Rightarrow>
                                      (None, app4\<lparr>reserved_set := S, selected := {},
                                                  status := ''Layout refreshed.''\<rparr>)))))))"

definition refresh_layout :: "'w env \<Rightarrow> 'w app \<Rightarrow> pyexc option \<times> 'w app" where
  "refresh_layout env app =
     (case invoke env (layout_payload app) app of
        (Inl e, app1) \<Rightarrow> (Some e, app1)
      | (Inr resp, app1) \<Rightarrow>
          (case py_get resp ''status'' JNull of
             Inl e \<Rightarrow> (Some e, app1)
           | Inr st \<Rightarrow>
               if st \<noteq> JStr ''ok''
               then (case py_get resp ''message'' JNull of
                       Inl e \<Rightarrow> (Some e, app1)
                     | Inr m \<Rightarrow> (Some (RuntimeError (''Logic error: '' @ py_str env m)), app1))
               else (case py_get resp ''layout'' JNull of
                       Inl e \<Rightarrow> (Some e, app1)
                     | Inr layout \<Rightarrow>
                         if \<not> truthy layout
                         then (Some (RuntimeError ''Invalid layout response''), app1)
                         else apply_layout layout app1)))"


text \<open>on_reserve (lines 247 to 284). \<open>client\<close> is what the operator answers to the
  question for a name (\<open>None\<close> when the question is cancelled).\<close>

definition seat_dto :: "int \<times> int \<Rightarrow> json" where
  "seat_dto s = JObj [(''row'', JInt (fst s)), (''col'', JInt (snd s))]"






text \<open>on_delete (lines 286 to 351). \<open>confirm\<close> is the operator's answer to the
  confirmation question.\<close>

definition seat_key :: "int \<times> int \<Rightarrow> hkey \<times> hkey" where
  "seat_key s = (HInt (fst s), HInt (snd s))"

definition seat_list :: "(int \<times> int) set \<Rightarrow> string" where
  "seat_list S =
     join '', '' (map (\<lambda>s. str_int (fst s) @ ''-'' @ str_int (snd s)) (sorted_list_of_set S))"

definition delete_payload :: "(int \<times> int) set \<Rightarrow> json" where
  "delete_payload S =
     JObj [(''action'', JStr ''delete_reservations''),
           (''seats'', JArr (map seat_dto (sorted_list_of_set S)))]"

definition reserved_to_delete :: "'w app \<Rightarrow> (int \<times> int) set" where
  "reserved_to_delete app = Set.filter (\<lambda>s. seat_key s \<in> reserved_set app) (selected app)"

definition unreserved_selected :: "'w app \<Rightarrow> (int \<times> int) set" where
  "unreserved_selected app = Set.filter (\<lambda>s. seat_key s \<notin> reserved_set app) (selected app)"

definition skipped_warning :: "'w app \<Rightarrow> dialog" where
  "skipped_warning app =
     ShowWarning ''Some Seats Not Reserved''
       (JStr (''The following seats are not reserved and will be skipped:\<newline>\<newline>''
                @ seat_list (unreserved_selected app)
                @ ''\<newline>\<newline>Only reserved seats will be deleted.''))"

definition none_reserved_warning :: "'w app \<Rightarrow> dialog" where
  "none_reserved_warning app =
     ShowWarning ''No Reserved Seats Selected''
       (JStr (''The following seats are not reserved and cannot be deleted:\<newline>\<newline>''
                @ seat_list (unreserved_selected app)
                @ ''\<newline>\<newline>Please select RESERVED (red) seats to delete.''))"

definition confirm_question :: "'w app \<Rightarrow> dialog" where
  "confirm_question app =
     AskYesNo ''Confirm Deletion''
       (''Are you sure you want to delete reservations for the following RESERVED seats?\<newline>\<newline>''
          @ seat_list (reserved_to_delete app)
          @ ''\<newline>\<newline>This action cannot be undone.'')"

text \<open>Lines 337 to 351: what the handler does with the decoded response.\<close>

definition delete_response :: "'w env \<Rightarrow> json \<Rightarrow> 'w app \<Rightarrow> pyexc option \<times> 'w app" where
  "delete_response env resp app1 =
     (case py_get resp ''status'' JNull of
        Inl e \<Rightarrow> (Some e, app1)
      | Inr st \<Rightarrow>
          if st = JStr ''ok''
          then (case py_get resp ''message'' (JStr ''Reservations deleted successfully.'') of
                  Inl e \<Rightarrow> (Some e, app1)
                | Inr msg \<Rightarrow>
                    (case refresh_layout env (show_dialog (ShowInfo ''Deleted'' msg) app1) of
                       (None, app2) \<Rightarrow> (None, app2)
                     | (Some e, app2) \<Rightarrow>
                         (None, show_dialog
                                  (ShowWarning ''Warning''
                                     (JStr (''Deleted but failed to refresh layout:\<newline>''
                                              @ str_exc env e))) app2)))
          else (case py_get resp ''message'' (JStr ''Deletion failed.'') of
                  Inl e \<Rightarrow> (Some e, app1)
                | Inr msg \<Rightarrow>
                    (case refresh_layout env
                            (show_dialog (ShowError ''Deletion failed'' msg) app1) of
                       (x, app2) \<Rightarrow> (None, app2))))"

text \<open>Lines 306 to 321: the warning about skipped seats, then the question.\<close>

definition before_delete :: "'w app \<Rightarrow> 'w app" where
  "before_delete app =
     show_dialog (confirm_question app)
       (if unreserved_selected app \<noteq> {} then show_dialog (skipped_warning app) app else app)"

definition on_delete :: "'w env \<Rightarrow> bool \<Rightarrow> 'w app \<Rightarrow> pyexc option \<times> 'w app" where
  "on_delete env confirm app =
     (if selected app = {}
      then (None, show_dialog
                    (ShowInfo ''No selection''
                       (JStr ''Select one or more RESERVED seats to delete their reservations.''))
                    app)
      else if reserved_to_delete app = {}
      then (if unreserved_selected app \<noteq> {}
            then (None, show_dialog (none_reserved_warning app) app)
            else (None, show_dialog
                          (ShowInfo ''No reserved seats''
                             (JStr ''Please select RESERVED (red) seats to delete their reservations.''))
                          app))
      else if \<not> confirm then (None, before_delete app)
      else
        (case invoke env (delete_payload (reserved_to_delete app)) (before_delete app) of
           (Inl e, app1) \<Rightarrow>
             (None, show_dialog
                      (ShowError ''Deletion error''
                         (JStr (''Failed to delete reservations:\<newline>'' @ str_exc env e)))
                      app1)
         | (Inr resp, app1) \<Rightarrow> delete_response env resp app1))"

section \<open>Notions used in the statements\<close>

text \<open>What a launch handed to the operating system, without its outcome.\<close>

definition sent :: "launch \<Rightarrow> mode \<times> string list \<times> string option" where
  "sent l = (l_mode l, l_argv l, l_stdin l)"

text \<open>
  The full schedule for a candidate list and a serialised payload: per candidate, in the
  order of the list, the command with the payload on standard input, then the command
  with the payload as one more argument and no standard input.
\<close>

definition all_attempts ::
  "string \<Rightarrow> string list list \<Rightarrow> (mode \<times> string list \<times> string option) list" where
  "all_attempts pj cands =
     concat (map (\<lambda>cmd. [(Stdin, cmd, Some pj), (Arg, cmd @ [pj], None)]) cands)"

text \<open>A launch whose standard output is non-empty after trimming.\<close>

definition usable :: "launch \<Rightarrow> bool" where
  "usable l = (case l_outcome l of Completed so se \<Rightarrow> strip so \<noteq> [] | _ \<Rightarrow> False)"

text \<open>The diagnostic lines one launch adds to \<^verbatim>\<open>last_err\<close>.\<close>

definition diag_lines :: "launch \<Rightarrow> string list" where
  "diag_lines l =
     failure_diag (l_mode l) (l_argv l) (l_outcome l)
       @ stderr_diag (l_mode l) (l_argv l) (snd (captured (l_outcome l)))"

definition verdict :: "'w env \<Rightarrow> launch \<Rightarrow> (pyexc + json) option" where
  "verdict env l =
     read_stdout env (l_mode l) (l_argv l)
       (fst (captured (l_outcome l))) (snd (captured (l_outcome l)))"

text \<open>Making the given launches one after the other, from the world \<open>w\<close>.\<close>

fun replay ::
  "'w env \<Rightarrow> 'w \<Rightarrow> (mode \<times> string list \<times> string option) list \<Rightarrow> launch list \<times> 'w" where
  "replay env w [] = ([], w)"
| "replay env w ((m, argv, inp) # xs) =
     (case popen env w argv inp of
        (out, w1) \<Rightarrow>
          (case replay env w1 xs of (ls, w2) \<Rightarrow> (Launch m argv inp out # ls, w2)))"

definition is_dll :: "string \<Rightarrow> bool" where
  "is_dll s = endswith (lower s) ''.dll''"

text \<open>A launch that hands over the serialised payload \<open>pj\<close>, in either mode.\<close>

definition carries :: "string \<Rightarrow> launch \<Rightarrow> bool" where
  "carries pj l =
     (l_stdin l = Some pj \<or> (l_stdin l = None \<and> l_argv l \<noteq> [] \<and> last (l_argv l) = pj))"

text \<open>
  Between the states \<open>a\<close> and \<open>a'\<close> exactly one \<^verbatim>\<open>get_layout\<close> call was made: the
  launches added are those of \<open>call_logic\<close> on the layout request, started in the world of
  \<open>a\<close>, and the world of \<open>a'\<close> is the one they leave.
\<close>

definition refreshed_from :: "'w env \<Rightarrow> 'w app \<Rightarrow> 'w app \<Rightarrow> bool" where
  "refreshed_from env a a' =
     (case call_logic env (logic_path a) (layout_payload a) (world a) of
        (r, ls, w') \<Rightarrow> launched a' = launched a @ ls \<and> world a' = w')"

text \<open>The warning a handler shows when the refresh after a successful call raised.\<close>

definition refresh_warning :: "'w env \<Rightarrow> string \<Rightarrow> pyexc option \<Rightarrow> dialog list" where
  "refresh_warning env what y =
     (case y of
        None \<Rightarrow> []
      | Some e \<Rightarrow>
          [ShowWarning ''Warning''
             (JStr (what @ '' but failed to refresh layout:\<newline>'' @ str_exc env e))])"



text \<open>
  The two parts of a selection: the selected seats whose pair of row and column is in
  the reserved set (eligible for deletion), and the selected seats for which it is not.
\<close>

definition eligible :: "'w app \<Rightarrow> (int \<times> int) set" where
  "eligible app = {s \<in> selected app. (HInt (fst s), HInt (snd s)) \<in> reserved_set app}"

definition ineligible :: "'w app \<Rightarrow> (int \<times> int) set" where
  "ineligible app = {s \<in> selected app. (HInt (fst s), HInt (snd s)) \<notin> reserved_set app}"

section \<open>A scripted environment for concrete runs\<close>

text \<open>
  The world is the list of outcomes still to come: each launch takes the next one, and a
  launch after the last finds no program. \<open>loads\<close> decodes the documents of a table and
  rejects every other text; \<open>dumps\<close> writes a value the way \<^verbatim>\<open>json.dumps\<close> does for
  strings that need no escape. Paths are plain file names that \<^verbatim>\<open>Path\<close> leaves as they
  are, and no file exists.
\<close>

fun show_json :: "json \<Rightarrow> string" where
  "show_json JNull = ''null''"
| "show_json (JBool b) = (if b then ''true'' else ''false'')"
| "show_json (JInt i) = str_int i"
| "show_json (JStr s) = CHR 0x22 # s @ [CHR 0x22]"
| "show_json (JArr xs) = ''['' @ join '', '' (map show_json xs) @ '']''"
| "show_json (JObj kvs) =
     ''{'' @ join '', '' (map (\<lambda>kv. CHR 0x22 # fst kv @ CHR 0x22 # '': '' @ show_json (snd kv)) kvs)
        @ ''}''"

definition plain_suffix :: "string \<Rightarrow> string" where
  "plain_suffix p =
     (let r = takeWhile (\<lambda>c. c \<noteq> CHR ''.'') (rev p)
      in if r \<noteq> [] \<and> length r + 1 < length p then CHR ''.'' # rev r else [])"

definition no_such_file :: string where
  "no_such_file = ''[Errno 2] No such file or directory''"

definition not_json :: string where
  "not_json = ''Expecting value: line 1 column 1 (char 0)''"

definition scripted_env :: "(string \<times> json) list \<Rightarrow> (outcome list) env" where
  "scripted_env docs =
     \<lparr>path_str = (\<lambda>p. p),
      path_suffix = plain_suffix,
      path_exists = (\<lambda>w p. Inr False),
      popen = (\<lambda>w argv inp. case w of [] \<Rightarrow> (NotFound no_such_file, []) | out # rest \<Rightarrow> (out, rest)),
      loads = (\<lambda>s. case map_of docs s of Some v \<Rightarrow> Inr v | None \<Rightarrow> Inl not_json),
      dumps = show_json,
      str_container = show_json,
      interp_text = (\<lambda>e. case e of
                            RuntimeError m \<Rightarrow> m
                          | OSError m \<Rightarrow> m
                          | AttributeError \<Rightarrow> ''AttributeError''
                          | KeyError k \<Rightarrow> CHR 0x27 # k @ [CHR 0x27]
                          | TypeError \<Rightarrow> ''TypeError'')\<rparr>"

text \<open>
  On Windows \<^verbatim>\<open>str(Path("//host/x.dll"))\<close> is two backslashes, \<^verbatim>\<open>host\<close>, a backslash,
  \<^verbatim>\<open>x.dll\<close> and one more backslash: the path names the root of a share, and
  \<^verbatim>\<open>pathlib\<close> writes such a root with a closing backslash. Its \<^verbatim>\<open>suffix\<close> is empty.
\<close>

definition unc_root :: string where
  "unc_root = CHR 0x5C # CHR 0x5C # ''host'' @ CHR 0x5C # ''x.dll'' @ [CHR 0x5C]"

text \<open>
  On Linux \<^verbatim>\<open>stat\<close> refuses a file name of more than 255 characters with errno 36, which
  \<^verbatim>\<open>exists\<close> does not catch.
\<close>

definition name_too_long :: string where
  "name_too_long = ''[Errno 36] File name too long''"

definition long_name :: string where
  "long_name = replicate 300 (CHR ''a'') @ ''.dll''"

definition linux_env :: "(outcome list) env" where
  "linux_env =
     (scripted_env [])
       \<lparr>path_exists := (\<lambda>w p. if 255 < length p then Inl name_too_long else Inr False)\<rparr>"

definition windows_env :: "(outcome list) env" where
  "windows_env =
     (scripted_env [])
       \<lparr>path_str := (\<lambda>p. if p = ''//host/x.dll'' then unc_root else p),
        path_suffix := (\<lambda>p. if p = ''//host/x.dll'' then [] else plain_suffix p)\<rparr>"


section \<open>Concrete runs\<close>

text \<open>
  Documents an authority may write, with what \<^verbatim>\<open>json.loads\<close> makes of them, and the
  requests the window serialises.
\<close>

definition layout_text :: string where
  \<open>layout_text =
     ''{"status": "ok", "layout": {"rows": 2, "cols": 2, "reserved": [{"row": 1, "col": 1}]}}''\<close>

definition layout_doc :: json where
  "layout_doc =
     JObj [(''status'', JStr ''ok''),
           (''layout'', JObj [(''rows'', JInt 2), (''cols'', JInt 2),
                              (''reserved'', JArr [JObj [(''row'', JInt 1), (''col'', JInt 1)]])])]"

definition busy_text :: string where
  \<open>busy_text = ''{"status": "error", "message": "busy"}''\<close>

definition busy_doc :: json where
  "busy_doc = JObj [(''status'', JStr ''error''), (''message'', JStr ''busy'')]"

definition ok_text :: string where
  \<open>ok_text = ''{"status": "ok"}''\<close>

definition ok_doc :: json where
  "ok_doc = JObj [(''status'', JStr ''ok'')]"

definition demo_env :: "(outcome list) env" where
  "demo_env = scripted_env [(layout_text, layout_doc), (busy_text, busy_doc), (ok_text, ok_doc)]"

definition list_request :: string where
  \<open>list_request = ''{"action": "list_reservations"}''\<close>

definition layout_request :: string where
  \<open>layout_request = ''{"action": "get_layout", "rows": 6, "cols": 10}''\<close>

definition cinema_cmds :: "string list list" where
  "cinema_cmds = [[''dotnet'', ''CinemaLogic.dll''], [dotnet_exe, ''CinemaLogic.dll'']]"

text \<open>
  The first launcher is missing; the second prints a usage text on standard error when
  the request is an argument, and answers on standard input.
\<close>

definition script_answer :: "outcome list" where
  "script_answer =
     [NotFound no_such_file, NotFound no_such_file,
      Completed (layout_text @ ''\<newline>'') ''warning: preview runtime'', TimedOut]"

definition run_answer :: "launch list" where
  "run_answer =
     [Launch Stdin [''dotnet'', ''CinemaLogic.dll''] (Some list_request) (NotFound no_such_file),
      Launch Arg [''dotnet'', ''CinemaLogic.dll'', list_request] None (NotFound no_such_file),
      Launch Stdin [dotnet_exe, ''CinemaLogic.dll''] (Some list_request)
        (Completed (layout_text @ ''\<newline>'') ''warning: preview runtime'')]"

text \<open>The first launch prints only on standard error; the next one is not JSON.\<close>

definition script_garbage :: "outcome list" where
  "script_garbage = [Completed '' '' ''usage: dotnet [options]'', Completed ''not json'' [], TimedOut]"

definition run_garbage :: "launch list" where
  "run_garbage =
     [Launch Stdin [''dotnet'', ''CinemaLogic.dll''] (Some list_request)
        (Completed '' '' ''usage: dotnet [options]''),
      Launch Arg [''dotnet'', ''CinemaLogic.dll'', list_request] None (Completed ''not json'' [])]"

text \<open>No launcher is installed.\<close>

definition run_missing :: "launch list" where
  "run_missing =
     [Launch Stdin [''dotnet'', ''CinemaLogic.dll''] (Some list_request) (NotFound no_such_file),
      Launch Arg [''dotnet'', ''CinemaLogic.dll'', list_request] None (NotFound no_such_file),
      Launch Stdin [dotnet_exe, ''CinemaLogic.dll''] (Some list_request) (NotFound no_such_file),
      Launch Arg [dotnet_exe, ''CinemaLogic.dll'', list_request] None (NotFound no_such_file)]"

text \<open>The window right after \<^verbatim>\<open>__init__\<close> set its attributes, in a scripted world.\<close>

definition demo_app :: "outcome list \<Rightarrow> (outcome list) app" where
  "demo_app script = initial_app ''CinemaLogic.dll'' script"


text \<open>Seat 1-1 is reserved; the operator has selected 1-1 and 2-2.\<close>

definition picking_app :: "outcome list \<Rightarrow> (outcome list) app" where
  "picking_app script =
     (demo_app script)\<lparr>selected := {(1, 1), (2, 2)}, reserved_set := {(HInt 1, HInt 1)}\<rparr>"

text \<open>The same window with two answers pending: one to a mutation, one to a refresh.\<close>

definition deleting_app :: "(outcome list) app" where
  "deleting_app = picking_app [Completed ok_text [], Completed layout_text []]"

text \<open>A fresh window in which the operator has selected seat 1-1.\<close>

definition lone_app :: "outcome list \<Rightarrow> (outcome list) app" where
  "lone_app script = (demo_app script)\<lparr>selected := {(1, 1)}\<rparr>"


definition delete_request :: string where
  \<open>delete_request = ''{"action": "delete_reservations", "seats": [{"row": 1, "col": 1}]}''\<close>

text \<open>
  One launcher only. It prints a usage text on standard error and nothing but a blank
  on standard output when the request comes on standard input, and is gone at the
  second launch.
\<close>

definition script_usage :: "outcome list" where
  "script_usage = [Completed '' '' (''usage: dotnet [options]'' @ ''\<newline>'')]"

definition run_usage :: "launch list" where
  "run_usage =
     [Launch Stdin [''dotnet'', ''CinemaLogic.dll''] (Some list_request)
        (Completed '' '' (''usage: dotnet [options]'' @ ''\<newline>'')),
      Launch Arg [''dotnet'', ''CinemaLogic.dll'', list_request] None (NotFound no_such_file)]"

definition usage_report :: string where
  \<open>usage_report =
     ''No valid response from logic program. Attempts:''
       @ ''\<newline>Command: dotnet CinemaLogic.dll (stdin) produced stderr: usage: dotnet [options]''
       @ ''\<newline>Command not found: dotnet CinemaLogic.dll {"action": "list_reservations"}''
       @ '' -> [Errno 2] No such file or directory''\<close>

section \<open>Properties\<close>

lemma strip_Nil [simp]: "strip [] = []"
  by (simp add: strip_def)

lemma verdict_None_iff: "verdict env l = None \<longleftrightarrow> \<not> usable l"
  by (auto simp: verdict_def usable_def read_stdout_def captured_def split: outcome.splits sum.splits)

lemma attempt_eq:
  "attempt env m argv inp w le =
     (let l = Launch m argv inp (fst (popen env w argv inp))
      in (verdict env l, le @ diag_lines l, l, snd (popen env w argv inp)))"
  by (simp add: attempt_def verdict_def diag_lines_def Let_def split: prod.splits)

lemma verdict_unusable: "\<not> usable l \<Longrightarrow> verdict env l = None"
  by (simp add: verdict_None_iff)

lemma verdict_usable: "usable l \<Longrightarrow> verdict env l = Some (the (verdict env l))"
  using verdict_None_iff [of env l] by (cases "verdict env l") auto

lemma try_candidates_step:
  assumes p1: "popen env w cmd (Some pj) = (o1, w1)"
      and p2: "popen env w1 (cmd @ [pj]) None = (o2, w2)"
      and rest: "try_candidates env pj rest w2 (le @ diag_lines l1 @ diag_lines l2) = (r0, ls0, w0)"
      and l1: "l1 = Launch Stdin cmd (Some pj) o1"
      and l2: "l2 = Launch Arg (cmd @ [pj]) None o2"
  shows "try_candidates env pj (cmd # rest) w le =
          (if usable l1 then (the (verdict env l1), [l1], w1)
           else if usable l2 then (the (verdict env l2), [l1, l2], w2)
           else (r0, l1 # l2 # ls0, w0))"
proof -
  have a1: "attempt env Stdin cmd (Some pj) w le = (verdict env l1, le @ diag_lines l1, l1, w1)"
    by (simp add: attempt_eq Let_def p1 l1)
  have a2: "attempt env Arg (cmd @ [pj]) None w1 (le @ diag_lines l1) =
              (verdict env l2, le @ diag_lines l1 @ diag_lines l2, l2, w2)"
    by (simp add: attempt_eq Let_def p2 l2)
  show ?thesis
  proof (cases "verdict env l1")
    case (Some v)
    then have "usable l1" using verdict_None_iff [of env l1] by simp
    then show ?thesis by (simp add: a1 Some)
  next
    case None
    then have u1: "\<not> usable l1" using verdict_None_iff [of env l1] by simp
    show ?thesis
    proof (cases "verdict env l2")
      case (Some v)
      then have "usable l2" using verdict_None_iff [of env l2] by simp
      then show ?thesis using u1 by (simp add: a1 a2 None Some)
    next
      case None2: None
      then have "\<not> usable l2" using verdict_None_iff [of env l2] by simp
      then show ?thesis using u1 by (simp add: a1 a2 None None2 rest)
    qed
  qed
qed

lemma try_candidates_trace:
  "try_candidates env pj cands w le = (r, ls, w') \<Longrightarrow>
     prefix (map sent ls) (all_attempts pj cands) \<and>
     (\<forall>i. Suc i < length ls \<longrightarrow> \<not> usable (ls ! i)) \<and>
     (ls \<noteq> [] \<longrightarrow> usable (last ls) \<longrightarrow> verdict env (last ls) = Some r) \<and>
     ((\<forall>l\<in>set ls. \<not> usable l) \<longrightarrow> map sent ls = all_attempts pj cands) \<and>
     ((\<forall>l\<in>set ls. \<not> usable l) \<longrightarrow> r = Inl (exhausted (le @ concat (map diag_lines ls))))"
proof (induction cands arbitrary: w le r ls w')
  case Nil
  then show ?case by (simp add: all_attempts_def)
next
  case (Cons cmd rest)
  obtain o1 w1 where p1: "popen env w cmd (Some pj) = (o1, w1)"
    by (cases "popen env w cmd (Some pj)") auto
  obtain o2 w2 where p2: "popen env w1 (cmd @ [pj]) None = (o2, w2)"
    by (cases "popen env w1 (cmd @ [pj]) None") auto
  define l1 where "l1 = Launch Stdin cmd (Some pj) o1"
  define l2 where "l2 = Launch Arg (cmd @ [pj]) None o2"
  obtain r0 ls0 w0 where
    rest: "try_candidates env pj rest w2 (le @ diag_lines l1 @ diag_lines l2) = (r0, ls0, w0)"
    by (cases "try_candidates env pj rest w2 (le @ diag_lines l1 @ diag_lines l2)") auto
  note step = try_candidates_step [OF p1 p2 rest l1_def l2_def]
  have s1: "sent l1 = (Stdin, cmd, Some pj)" and s2: "sent l2 = (Arg, cmd @ [pj], None)"
    by (simp_all add: sent_def l1_def l2_def)
  have sched: "all_attempts pj (cmd # rest) = sent l1 # sent l2 # all_attempts pj rest"
    by (simp add: all_attempts_def s1 s2)
  note ih = Cons.IH [OF rest]
  consider (first) "usable l1" | (second) "\<not> usable l1" "usable l2"
    | (later) "\<not> usable l1" "\<not> usable l2" by blast
  then show ?case
  proof cases
    case first
    with step Cons.prems have eq: "r = the (verdict env l1)" "ls = [l1]" by simp_all
    show ?thesis using first verdict_usable [OF first, of env] by (simp add: eq sched)
  next
    case second
    with step Cons.prems have eq: "r = the (verdict env l2)" "ls = [l1, l2]" by simp_all
    show ?thesis using second verdict_usable [OF second(2), of env] by (simp add: eq sched)
  next
    case later
    with step Cons.prems have eq: "r = r0" "ls = l1 # l2 # ls0" by simp_all
    have "\<forall>i. Suc i < length ls \<longrightarrow> \<not> usable (ls ! i)"
    proof (intro allI impI)
      fix i assume "Suc i < length ls"
      then show "\<not> usable (ls ! i)"
        using later ih by (cases i; cases "i - 1") (auto simp: eq)
    qed
    moreover have "ls \<noteq> [] \<longrightarrow> usable (last ls) \<longrightarrow> verdict env (last ls) = Some r"
      using later ih by (cases "ls0 = []") (auto simp: eq)
    ultimately show ?thesis using later ih by (simp add: eq sched)
  qed
qed


lemma try_candidates_replay:
  "try_candidates env pj cands w le = (r, ls, w') \<Longrightarrow> replay env w (map sent ls) = (ls, w')"
proof (induction cands arbitrary: w le r ls w')
  case Nil
  then show ?case by simp
next
  case (Cons cmd rest)
  obtain o1 w1 where p1: "popen env w cmd (Some pj) = (o1, w1)"
    by (cases "popen env w cmd (Some pj)") auto
  obtain o2 w2 where p2: "popen env w1 (cmd @ [pj]) None = (o2, w2)"
    by (cases "popen env w1 (cmd @ [pj]) None") auto
  define l1 where "l1 = Launch Stdin cmd (Some pj) o1"
  define l2 where "l2 = Launch Arg (cmd @ [pj]) None o2"
  obtain r0 ls0 w0 where
    rest: "try_candidates env pj rest w2 (le @ diag_lines l1 @ diag_lines l2) = (r0, ls0, w0)"
    by (cases "try_candidates env pj rest w2 (le @ diag_lines l1 @ diag_lines l2)") auto
  note step = try_candidates_step [OF p1 p2 rest l1_def l2_def]
  have s1: "sent l1 = (Stdin, cmd, Some pj)" and s2: "sent l2 = (Arg, cmd @ [pj], None)"
    by (simp_all add: sent_def l1_def l2_def)
  have ls: "ls = [l1] \<and> w' = w1 \<or> ls = [l1, l2] \<and> w' = w2 \<or> ls = l1 # l2 # ls0 \<and> w' = w0"
    using step Cons.prems by (auto split: if_splits)
  then show ?case
    using Cons.IH [OF rest] by (auto simp: sent_def p1 p2 l1_def l2_def)
qed

lemma usable_is_last:
  assumes "try_candidates env pj cands w le = (r, ls, w')" and "i < length ls" and "usable (ls ! i)"
  shows "Suc i = length ls \<and> verdict env (ls ! i) = Some r"
proof -
  note t = try_candidates_trace [OF assms(1)]
  have "\<not> Suc i < length ls" using t assms(3) by blast
  with assms(2) have last: "Suc i = length ls" by simp
  then have ne: "ls \<noteq> []" by auto
  with last have "last ls = ls ! i" by (simp add: last_conv_nth flip: last)
  note ne and this
  with t assms(3) last show ?thesis by simp
qed

lemma unusable_continues:
  assumes "try_candidates env pj cands w le = (r, ls, w')" and "i < length ls" and "\<not> usable (ls ! i)"
  shows "Suc i < length ls \<or>
         (map sent ls = all_attempts pj cands \<and> r = Inl (exhausted (le @ concat (map diag_lines ls))))"
proof (cases "Suc i < length ls")
  case True
  then show ?thesis by simp
next
  case False
  with assms(2) have last: "Suc i = length ls" by simp
  note t = try_candidates_trace [OF assms(1)]
  have "\<forall>l\<in>set ls. \<not> usable l"
  proof
    fix l assume "l \<in> set ls"
    then obtain k where k: "k < length ls" "l = ls ! k" by (auto simp: in_set_conv_nth)
    show "\<not> usable l"
    proof (cases "k = i")
      case True
      with k assms(3) show ?thesis by simp
    next
      case False
      with k last have "Suc k < length ls" by simp
      with t k show ?thesis by blast
    qed
  qed
  with t show ?thesis by blast
qed

lemma verdict_Completed:
  "l_outcome l = Completed so se \<Longrightarrow> strip so \<noteq> [] \<Longrightarrow>
     verdict env l =
       Some (case loads env (strip so) of
               Inr v \<Rightarrow> Inr v
             | Inl e \<Rightarrow> Inl (RuntimeError (parse_error (l_mode l) (l_argv l) e so (Some se))))"
  by (auto simp: verdict_def read_stdout_def captured_def split: sum.splits)

lemma usable_Completed: "l_outcome l = Completed so se \<Longrightarrow> usable l \<longleftrightarrow> strip so \<noteq> []"
  by (simp add: usable_def)

text \<open>
  C1. For every candidate list and payload, the launches the loop makes are an initial
  segment of the schedule that tries, candidate by candidate in the order of the list,
  standard input before the extra argument; they are made one after the other in the
  world. As soon as a launch yields standard output that is non-empty after trimming and
  decodes as JSON, the decoded value is the result and that launch is the last one: no
  later mode or candidate is tried.
\<close>

theorem stdin_first_and_short_circuit:
  assumes "try_candidates env pj cands w le = (r, ls, w')"
  shows "prefix (map sent ls) (all_attempts pj cands) \<and>
         replay env w (map sent ls) = (ls, w') \<and>
         (\<forall>i so se v. i < length ls \<and> l_outcome (ls ! i) = Completed so se \<and> strip so \<noteq> [] \<and>
              loads env (strip so) = Inr v \<longrightarrow> r = Inr v \<and> Suc i = length ls)"
proof (intro conjI allI impI)
  show "prefix (map sent ls) (all_attempts pj cands)"
    using try_candidates_trace [OF assms] by blast
  show "replay env w (map sent ls) = (ls, w')"
    by (rule try_candidates_replay [OF assms])
next
  fix i so se v
  assume h: "i < length ls \<and> l_outcome (ls ! i) = Completed so se \<and> strip so \<noteq> [] \<and>
             loads env (strip so) = Inr v"
  then have u: "usable (ls ! i)" by (simp add: usable_Completed)
  from usable_is_last [OF assms _ u] h verdict_Completed [of "ls ! i" so se env]
  show "r = Inr v" and "Suc i = length ls" by simp_all
qed

lemma sublist_parse_error:
  "sublist so (parse_error m argv e so stderr)" "sublist (join '' '' argv) (parse_error m argv e so stderr)"
  unfolding parse_error_def sublist_def by (metis append.assoc)+

text \<open>
  C2. When a launch yields standard output that is non-empty after trimming and does
  not decode as JSON, it is the last launch and the call raises a RuntimeError whose
  message contains the raw standard output and the command line of that launch.
\<close>

theorem parse_failure_is_fatal:
  assumes "try_candidates env pj cands w le = (r, ls, w')"
      and "i < length ls" and "l_outcome (ls ! i) = Completed so se"
      and "strip so \<noteq> []" and "loads env (strip so) = Inl e"
  shows "Suc i = length ls \<and>
         r = Inl (RuntimeError (parse_error (l_mode (ls ! i)) (l_argv (ls ! i)) e so (Some se))) \<and>
         sublist so (parse_error (l_mode (ls ! i)) (l_argv (ls ! i)) e so (Some se)) \<and>
         sublist (join '' '' (l_argv (ls ! i)))
           (parse_error (l_mode (ls ! i)) (l_argv (ls ! i)) e so (Some se)) \<and>
         replay env w (map sent ls) = (ls, w')"
proof -
  have u: "usable (ls ! i)" using assms(3,4) by (simp add: usable_Completed)
  from usable_is_last [OF assms(1,2) u] verdict_Completed [OF assms(3,4), of env] assms(5)
  have "Suc i = length ls"
    and "r = Inl (RuntimeError (parse_error (l_mode (ls ! i)) (l_argv (ls ! i)) e so (Some se)))"
    by simp_all
  then show ?thesis
    using sublist_parse_error try_candidates_replay [OF assms(1)] by simp
qed


lemma sublist_behind: "sublist x zs \<Longrightarrow> sublist x (ps @ zs)"
  unfolding sublist_def by (metis append.assoc)

lemma sublist_join: "x \<in> set xs \<Longrightarrow> sublist x (join sep xs)"
proof (induction sep xs rule: join.induct)
  case (1 sep)
  then show ?case by simp
next
  case (2 sep y)
  then show ?case by simp
next
  case (3 sep y z zs)
  show ?case
  proof (cases "x = y")
    case True
    then show ?thesis by (simp add: sublist_append_rightI)
  next
    case False
    with 3 have "sublist x (join sep (z # zs))" by simp
    then have "sublist x ((y @ sep) @ join sep (z # zs))" by (rule sublist_behind)
    then show ?thesis by simp
  qed
qed

text \<open>
  C3. When no launch yields standard output that is non-empty after trimming (launch
  failures and timeouts included), every attempt of the schedule has been made and the
  call raises one RuntimeError whose message is the header followed by the diagnostic
  lines of the launches in the order they were made. When every launch fails with
  \<^verbatim>\<open>FileNotFoundError\<close>, the message contains a command-not-found line for each
  candidate.
\<close>

theorem all_empty_aggregates_diagnostics:
  assumes "try_candidates env pj cands w [] = (r, ls, w')"
      and "\<forall>l\<in>set ls. \<not> usable l"
  shows "map sent ls = all_attempts pj cands \<and>
         r = Inl (exhausted (concat (map diag_lines ls))) \<and>
         ((\<forall>l\<in>set ls. \<exists>fe. l_outcome l = NotFound fe) \<longrightarrow>
            (\<forall>cmd\<in>set cands. \<exists>fe msg.
               r = Inl (RuntimeError msg) \<and>
               (''Command not found: '' @ join '' '' cmd @ '' -> '' @ fe)
                 \<in> set (concat (map diag_lines ls)) \<and>
               sublist (''Command not found: '' @ join '' '' cmd @ '' -> '' @ fe) msg))"
proof -
  note t = try_candidates_trace [OF assms(1)]
  from t assms(2) have sched: "map sent ls = all_attempts pj cands"
    and res: "r = Inl (exhausted (concat (map diag_lines ls)))" by simp_all
  define msg where
    "msg = ''No valid response from logic program. Attempts:\<newline>''
             @ join ''\<newline>'' (concat (map diag_lines ls))"
  have rmsg: "r = Inl (RuntimeError msg)" by (simp add: res exhausted_def msg_def)
  have "\<exists>fe msg. r = Inl (RuntimeError msg) \<and>
           (''Command not found: '' @ join '' '' cmd @ '' -> '' @ fe)
             \<in> set (concat (map diag_lines ls)) \<and>
           sublist (''Command not found: '' @ join '' '' cmd @ '' -> '' @ fe) msg"
    if nf: "\<forall>l\<in>set ls. \<exists>fe. l_outcome l = NotFound fe" and cmd: "cmd \<in> set cands" for cmd
  proof -
    from cmd have "(Stdin, cmd, Some pj) \<in> set (all_attempts pj cands)"
      by (auto simp: all_attempts_def)
    with sched obtain l where l: "l \<in> set ls" "sent l = (Stdin, cmd, Some pj)"
      by (metis (no_types, lifting) imageE list.set_map)
    from nf l obtain fe where fe: "l_outcome l = NotFound fe" by blast
    from l(2) have "l_mode l = Stdin" "l_argv l = cmd" by (simp_all add: sent_def)
    with fe have "diag_lines l = [''Command not found: '' @ join '' '' cmd @ '' -> '' @ fe]"
      by (simp add: diag_lines_def failure_diag_def captured_def stderr_diag_def)
    with l(1) have mem: "(''Command not found: '' @ join '' '' cmd @ '' -> '' @ fe)
                           \<in> set (concat (map diag_lines ls))" by force
    from sublist_join [OF mem, of "''\<newline>''"]
    have "sublist (''Command not found: '' @ join '' '' cmd @ '' -> '' @ fe) msg"
      unfolding msg_def by (rule sublist_behind)
    with rmsg mem show ?thesis by blast
  qed
  with sched res show ?thesis by blast
qed

lemma unusable_last_exhausted:
  assumes "try_candidates env pj cands w le = (r, ls, w')" and "ls \<noteq> []"
      and "\<not> usable (last ls)"
  shows "r = Inl (exhausted (le @ concat (map diag_lines ls)))"
proof -
  from assms(2) have i: "length ls - 1 < length ls" and l: "ls ! (length ls - 1) = last ls"
    by (simp_all add: last_conv_nth)
  from assms(3) l have "\<not> usable (ls ! (length ls - 1))" by simp
  from unusable_continues [OF assms(1) i this] assms(2) show ?thesis by simp
qed

text \<open>
  C8. For a launch that completed, standard error decides the diagnostic line and nothing
  else. With standard error non-empty after trimming, the launch records exactly one
  line, made of the word Command, the command line, the mode and the trimmed text; and
  when the call ends without usable standard output, that line is part of the message of
  the RuntimeError it raises. With standard error blank the launch records nothing.
  Whether the loop stops is decided by standard output alone: with standard output
  non-empty after trimming the launch is the last one and the result is the decoded
  value (or the parse error), whatever standard error holds; with standard output empty
  the next launch of the schedule is made, or the schedule is finished and the call
  raises the aggregated error.
\<close>

theorem stderr_is_diagnostic_only:
  assumes "try_candidates env pj cands w le = (r, ls, w')"
      and "i < length ls" and "l_outcome (ls ! i) = Completed so se"
  shows "(strip so \<noteq> [] \<longrightarrow>
            Suc i = length ls \<and>
            r = (case loads env (strip so) of
                   Inr v \<Rightarrow> Inr v
                 | Inl e \<Rightarrow>
                     Inl (RuntimeError
                            (parse_error (l_mode (ls ! i)) (l_argv (ls ! i)) e so (Some se))))) \<and>
         (strip so = [] \<longrightarrow>
            Suc i < length ls \<or>
            (map sent ls = all_attempts pj cands \<and>
             r = Inl (exhausted (le @ concat (map diag_lines ls))))) \<and>
         (strip se = [] \<longrightarrow> diag_lines (ls ! i) = []) \<and>
         (strip se \<noteq> [] \<longrightarrow>
            diag_lines (ls ! i) =
              [''Command: '' @ join '' '' (l_argv (ls ! i))
                 @ '' ('' @ (case l_mode (ls ! i) of Stdin \<Rightarrow> ''stdin'' | Arg \<Rightarrow> ''arg'')
                 @ '') produced stderr: '' @ strip se] \<and>
            (\<not> usable (last ls) \<longrightarrow>
               (\<exists>msg. r = Inl (RuntimeError msg) \<and>
                      sublist
                        (''Command: '' @ join '' '' (l_argv (ls ! i))
                           @ '' ('' @ (case l_mode (ls ! i) of Stdin \<Rightarrow> ''stdin'' | Arg \<Rightarrow> ''arg'')
                           @ '') produced stderr: '' @ strip se)
                        msg)))"
proof (intro conjI impI)
  assume ne: "strip so \<noteq> []"
  then have u: "usable (ls ! i)" using assms(3) by (simp add: usable_Completed)
  from usable_is_last [OF assms(1,2) u] verdict_Completed [OF assms(3) ne, of env]
  show "Suc i = length ls"
    and "r = (case loads env (strip so) of
                Inr v \<Rightarrow> Inr v
              | Inl e \<Rightarrow>
                  Inl (RuntimeError
                         (parse_error (l_mode (ls ! i)) (l_argv (ls ! i)) e so (Some se))))"
    by simp_all
next
  assume "strip so = []"
  then have "\<not> usable (ls ! i)" using assms(3) by (simp add: usable_Completed)
  from unusable_continues [OF assms(1,2) this]
  show "Suc i < length ls \<or>
        (map sent ls = all_attempts pj cands \<and>
         r = Inl (exhausted (le @ concat (map diag_lines ls))))" .
next
  assume "strip se = []"
  then show "diag_lines (ls ! i) = []"
    using assms(3) by (simp add: diag_lines_def failure_diag_def captured_def stderr_diag_def)
next
  assume se: "strip se \<noteq> []"
  define line where
    "line = ''Command: '' @ join '' '' (l_argv (ls ! i))
              @ '' ('' @ (case l_mode (ls ! i) of Stdin \<Rightarrow> ''stdin'' | Arg \<Rightarrow> ''arg'')
              @ '') produced stderr: '' @ strip se"
  from se have "se \<noteq> []" by auto
  with assms(3) se have d: "diag_lines (ls ! i) = [line]"
    by (simp add: line_def diag_lines_def failure_diag_def captured_def stderr_diag_def
                  mode_tag_def)
  then show "diag_lines (ls ! i) =
              [''Command: '' @ join '' '' (l_argv (ls ! i))
                 @ '' ('' @ (case l_mode (ls ! i) of Stdin \<Rightarrow> ''stdin'' | Arg \<Rightarrow> ''arg'')
                 @ '') produced stderr: '' @ strip se]"
    by (simp add: line_def)
  assume last: "\<not> usable (last ls)"
  from assms(2) have ne: "ls \<noteq> []" by auto
  define msg where
    "msg = ''No valid response from logic program. Attempts:\<newline>''
             @ join ''\<newline>'' (le @ concat (map diag_lines ls))"
  from unusable_last_exhausted [OF assms(1) ne last]
  have rmsg: "r = Inl (RuntimeError msg)" by (simp add: exhausted_def msg_def)
  from assms(2) have "ls ! i \<in> set ls" by simp
  with d have "line \<in> set (le @ concat (map diag_lines ls))" by force
  from sublist_join [OF this, of "''\<newline>''"]
  have "sublist line msg" unfolding msg_def by (rule sublist_behind)
  with rmsg show "\<exists>msg. r = Inl (RuntimeError msg) \<and>
                      sublist
                        (''Command: '' @ join '' '' (l_argv (ls ! i))
                           @ '' ('' @ (case l_mode (ls ! i) of Stdin \<Rightarrow> ''stdin'' | Arg \<Rightarrow> ''arg'')
                           @ '') produced stderr: '' @ strip se)
                        msg"
    unfolding line_def by blast
qed

text \<open>
  C5, as amended. For every path on which \<^verbatim>\<open>Path(path).exists()\<close> does not raise, the list of
  candidates is built and is non-empty; and whenever \<^verbatim>\<open>str(Path(path))\<close> ends in
  \<^verbatim>\<open>.dll\<close>, whatever the case of the letters, its first two entries are \<^verbatim>\<open>dotnet\<close> and
  the absolute \<^verbatim>\<open>dotnet.exe\<close>, each followed by \<^verbatim>\<open>str(Path(path))\<close>.
\<close>

theorem launcher_forms_first:
  assumes "path_exists env w path = Inr ex"
  shows "\<exists>cs. resolve_candidates env w path = Inr cs \<and> cs \<noteq> [] \<and>
              (is_dll (path_str env path) \<longrightarrow>
                 take 2 cs = [[''dotnet'', path_str env path], [dotnet_exe, path_str env path]])"
  using assms
  by (simp add: resolve_candidates_def dll_indicated_def exe_present_def is_dll_def Let_def)

lemma make_grid_frame:
  "make_grid a = (y, a') \<Longrightarrow>
     world a' = world a \<and> launched a' = launched a \<and> shown a' = shown a \<and>
     logic_path a' = logic_path a \<and> rows a' = rows a \<and> cols a' = cols a \<and>
     selected a' = selected a \<and> reserved_set a' = reserved_set a \<and> status a' = status a"
  by (auto simp: make_grid_def Let_def split: option.splits if_splits)

lemma apply_layout_frame:
  "apply_layout layout a = (y, a') \<Longrightarrow>
     world a' = world a \<and> launched a' = launched a \<and> shown a' = shown a \<and>
     logic_path a' = logic_path a"
  by (auto simp: apply_layout_def Let_def split: sum.splits option.splits prod.splits
           dest!: make_grid_frame)

lemma refresh_layout_effects:
  assumes "refresh_layout env a = (y, a')"
  shows "refreshed_from env a a' \<and> shown a' = shown a \<and> logic_path a' = logic_path a"
proof -
  obtain r ls w' where c: "call_logic env (logic_path a) (layout_payload a) (world a) = (r, ls, w')"
    by (cases "call_logic env (logic_path a) (layout_payload a) (world a)") auto
  define a1 where "a1 = a\<lparr>world := w', launched := launched a @ ls\<rparr>"
  have inv: "invoke env (layout_payload a) a = (r, a1)"
    by (simp add: invoke_def c a1_def)
  have "world a' = world a1 \<and> launched a' = launched a1 \<and> shown a' = shown a1 \<and>
        logic_path a' = logic_path a1"
    using assms
    by (auto simp: refresh_layout_def inv split: sum.splits if_splits dest!: apply_layout_frame)
  then show ?thesis by (simp add: refreshed_from_def c a1_def)
qed

text \<open>
  C9. Toggling the same seat twice gives back the window as it was, so the whole
  selection is as before; one toggle flips the membership of that seat, leaves every
  other seat of the selection alone, and neither reads nor changes the reserved set.
\<close>

theorem toggle_select_involution:
  "toggle_select r c (toggle_select r c app) = app \<and>
   ((r, c) \<in> selected (toggle_select r c app) \<longleftrightarrow> (r, c) \<notin> selected app) \<and>
   selected (toggle_select r c app) - {(r, c)} = selected app - {(r, c)} \<and>
   reserved_set (toggle_select r c app) = reserved_set app"
  by (auto simp: toggle_select_def insert_absorb)


text \<open>
  C10. When call_logic returns a response whose status is not "ok", or whose
  \<^verbatim>\<open>layout\<close> is missing (or otherwise false), refresh_layout raises and the window is
  the one before the call, but for the world and the launches of the call: selection,
  reserved set, rows, columns, buttons and status are untouched.
\<close>

theorem failed_refresh_changes_nothing:
  assumes "call_logic env (logic_path app) (layout_payload app) (world app) = (Inr resp, ls, w1)"
      and "py_get resp ''status'' JNull \<noteq> Inr (JStr ''ok'')
           \<or> (\<exists>l. py_get resp ''layout'' JNull = Inr l \<and> \<not> truthy l)"
  shows "\<exists>e. refresh_layout env app = (Some e, app\<lparr>world := w1, launched := launched app @ ls\<rparr>)"
proof -
  have inv: "invoke env (layout_payload app) app
               = (Inr resp, app\<lparr>world := w1, launched := launched app @ ls\<rparr>)"
    by (simp add: invoke_def assms(1))
  show ?thesis
    using assms(2)
    by (auto simp: refresh_layout_def inv split: sum.splits)
qed







lemma call_logic_carries:
  assumes "call_logic env path payload w = (r, ls, w')"
  shows "\<forall>l\<in>set ls. carries (dumps env payload) l"
proof (cases "resolve_candidates env w path")
  case (Inl e)
  with assms show ?thesis by (simp add: call_logic_def)
next
  case (Inr cands)
  show ?thesis
  proof
    fix l assume l: "l \<in> set ls"
    from assms Inr have t: "try_candidates env (dumps env payload) cands w [] = (r, ls, w')"
      by (simp add: call_logic_def)
    have "prefix (map sent ls) (all_attempts (dumps env payload) cands)"
      using try_candidates_trace [OF t] by (rule conjunct1)
    then have "set (map sent ls) \<subseteq> set (all_attempts (dumps env payload) cands)"
      by (rule set_mono_prefix)
    moreover from l have "sent l \<in> set (map sent ls)" by simp
    ultimately have "sent l \<in> set (all_attempts (dumps env payload) cands)"
      by (rule subsetD)
    then obtain cmd where "sent l = (Stdin, cmd, Some (dumps env payload))
        \<or> sent l = (Arg, cmd @ [dumps env payload], None)"
      unfolding all_attempts_def by auto
    then show "carries (dumps env payload) l"
      unfolding sent_def carries_def by auto
  qed
qed

lemma invoke_effects:
  assumes "invoke env p a = (res, a1)"
  shows "\<exists>ls w'. call_logic env (logic_path a) p (world a) = (res, ls, w') \<and>
                   a1 = a\<lparr>world := w', launched := launched a @ ls\<rparr>"
  using assms by (auto simp: invoke_def split: prod.splits)

lemma refresh_layout_after:
  assumes "refresh_layout env a = (y, a')"
  shows "\<exists>ls2. launched a' = launched a @ ls2" and "shown a' = shown a"
  using refresh_layout_effects [OF assms]
  by (auto simp: refreshed_from_def split: prod.splits)

lemma delete_response_effects:
  assumes "delete_response env resp a = (x, a')"
  shows "\<exists>ls2. launched a' = launched a @ ls2" and "set (shown a) \<subseteq> set (shown a')"
proof -
  have "(\<exists>ls2. launched a' = launched a @ ls2) \<and> set (shown a) \<subseteq> set (shown a')"
  proof (cases "py_get resp ''status'' JNull")
    case (Inl e)
    with assms show ?thesis by (simp add: delete_response_def)
  next
    case (Inr st)
    show ?thesis
    proof (cases "st = JStr ''ok''")
      case True
      show ?thesis
      proof (cases "py_get resp ''message'' (JStr ''Reservations deleted successfully.'')")
        case (Inl e)
        with assms Inr True show ?thesis by (simp add: delete_response_def)
      next
        case msg: (Inr msg)
        obtain y a2 where r: "refresh_layout env (show_dialog (ShowInfo ''Deleted'' msg) a) = (y, a2)"
          by (cases "refresh_layout env (show_dialog (ShowInfo ''Deleted'' msg) a)") auto
        from refresh_layout_after [OF r]
        have "\<exists>ls2. launched a2 = launched a @ ls2" "set (shown a) \<subseteq> set (shown a2)"
          by (auto simp: show_dialog_def)
        moreover have "launched a' = launched a2 \<and> set (shown a2) \<subseteq> set (shown a')"
          using assms Inr True msg r
          by (cases y) (auto simp: delete_response_def show_dialog_def)
        ultimately show ?thesis by auto
      qed
    next
      case False
      show ?thesis
      proof (cases "py_get resp ''message'' (JStr ''Deletion failed.'')")
        case (Inl e)
        with assms Inr False show ?thesis by (simp add: delete_response_def)
      next
        case msg: (Inr msg)
        obtain y a2 where r: "refresh_layout env (show_dialog (ShowError ''Deletion failed'' msg) a) = (y, a2)"
          by (cases "refresh_layout env (show_dialog (ShowError ''Deletion failed'' msg) a)") auto
        from refresh_layout_after [OF r]
        have "\<exists>ls2. launched a2 = launched a @ ls2" "set (shown a) \<subseteq> set (shown a2)"
          by (auto simp: show_dialog_def)
        moreover have "a' = a2"
          using assms Inr False msg r by (simp add: delete_response_def)
        ultimately show ?thesis by auto
      qed
    qed
  qed
  then show "\<exists>ls2. launched a' = launched a @ ls2" and "set (shown a) \<subseteq> set (shown a')"
    by blast+
qed

lemma on_delete_confirmed:
  assumes "reserved_to_delete app \<noteq> {}"
  shows "\<exists>res ls w1 ls2.
           call_logic env (logic_path app) (delete_payload (reserved_to_delete app)) (world app)
             = (res, ls, w1) \<and>
           launched (snd (on_delete env True app)) = launched app @ ls @ ls2 \<and>
           set (shown (before_delete app)) \<subseteq> set (shown (snd (on_delete env True app)))"
proof -
  from assms have sel: "selected app \<noteq> {}" by (auto simp: reserved_to_delete_def)
  have a0: "logic_path (before_delete app) = logic_path app"
    "world (before_delete app) = world app" "launched (before_delete app) = launched app"
    by (simp_all add: before_delete_def show_dialog_def)
  obtain res app1 where
    inv: "invoke env (delete_payload (reserved_to_delete app)) (before_delete app) = (res, app1)"
    by (cases "invoke env (delete_payload (reserved_to_delete app)) (before_delete app)") auto
  from invoke_effects [OF inv] a0 obtain ls w1 where
    c: "call_logic env (logic_path app) (delete_payload (reserved_to_delete app)) (world app) = (res, ls, w1)"
    and l1: "launched app1 = launched app @ ls" and s1: "shown app1 = shown (before_delete app)"
    by auto
  have "(\<exists>ls2. launched (snd (on_delete env True app)) = launched app1 @ ls2) \<and>
        set (shown app1) \<subseteq> set (shown (snd (on_delete env True app)))"
  proof (cases res)
    case (Inl e)
    then show ?thesis using assms sel by (simp add: on_delete_def inv show_dialog_def) blast
  next
    case (Inr resp)
    obtain x a' where d: "delete_response env resp app1 = (x, a')"
      by (cases "delete_response env resp app1") auto
    from delete_response_effects [OF d] show ?thesis
      using assms sel Inr by (simp add: on_delete_def inv d)
  qed
  with c l1 s1 show ?thesis by auto
qed

lemma refreshed_from_shown:
  assumes "refreshed_from env (show_dialog d a) a2"
  shows "refreshed_from env a a2" and "refreshed_from env a (show_dialog d' a2)"
  using assms by (simp_all add: refreshed_from_def show_dialog_def layout_payload_def)

lemma after_refresh:
  assumes r: "refresh_layout env (show_dialog d a) = (y, a2)"
  shows "refreshed_from env a a2" and "shown a2 = shown a @ [d]"
  using refresh_layout_effects [OF r] refreshed_from_shown(1) [of env d a a2]
  by (simp_all add: show_dialog_def)


lemma delete_response_refresh:
  assumes "delete_response env resp a = (x, a')"
  shows "(x \<noteq> None \<longrightarrow> a' = a) \<and>
         (x = None \<longrightarrow>
            refreshed_from env a a' \<and>
            (if py_get resp ''status'' JNull = Inr (JStr ''ok'')
             then \<exists>d. shown a' = shown a @ [d]
                        @ refresh_warning env ''Deleted'' (fst (refresh_layout env (show_dialog d a)))
             else \<exists>d. shown a' = shown a @ [d]))"
proof (cases "py_get resp ''status'' JNull")
  case (Inl e)
  with assms show ?thesis by (auto simp: delete_response_def)
next
  case (Inr st)
  show ?thesis
  proof (cases "st = JStr ''ok''")
    case True
    show ?thesis
    proof (cases "py_get resp ''message'' (JStr ''Reservations deleted successfully.'')")
      case (Inl e)
      with assms Inr True show ?thesis by (auto simp: delete_response_def)
    next
      case m: (Inr msg)
      define d where "d = ShowInfo ''Deleted'' msg"
      obtain y a2 where r: "refresh_layout env (show_dialog d a) = (y, a2)"
        by (cases "refresh_layout env (show_dialog d a)") auto
      note ar = after_refresh [OF r]
      have res: "x = None \<and> launched a' = launched a2 \<and> world a' = world a2 \<and>
                 shown a' = shown a2 @ refresh_warning env ''Deleted'' y"
      proof -
        have "(case refresh_layout env (show_dialog d a) of
                 (None, app2) \<Rightarrow> (None, app2)
               | (Some e, app2) \<Rightarrow>
                   (None, show_dialog
                            (ShowWarning ''Warning''
                               (JStr (''Deleted but failed to refresh layout:\<newline>''
                                        @ str_exc env e))) app2)) = (x, a')"
          using assms Inr True m by (simp add: delete_response_def d_def)
        then show ?thesis
          unfolding r by (cases y) (auto simp: show_dialog_def refresh_warning_def)
      qed
      have "refreshed_from env a a'"
        using ar(1) res by (simp add: refreshed_from_def split: prod.splits)
      moreover have "shown a' = shown a @ [d]
                      @ refresh_warning env ''Deleted'' (fst (refresh_layout env (show_dialog d a)))"
        using res ar(2) r by simp
      ultimately show ?thesis using res Inr True by auto
    qed
  next
    case False
    show ?thesis
    proof (cases "py_get resp ''message'' (JStr ''Deletion failed.'')")
      case (Inl e)
      with assms Inr False show ?thesis by (auto simp: delete_response_def)
    next
      case m: (Inr msg)
      obtain y a2 where r:
        "refresh_layout env (show_dialog (ShowError ''Deletion failed'' msg) a) = (y, a2)"
        by (cases "refresh_layout env (show_dialog (ShowError ''Deletion failed'' msg) a)") auto
      have "x = None \<and> a' = a2"
        using assms Inr False m r by (simp add: delete_response_def)
      with after_refresh [OF r] Inr False show ?thesis by auto
    qed
  qed
qed





text \<open>
  C1, a run. the first launcher is missing in both modes, the second answers on
  standard input with a layout and a line on standard error; the fourth outcome of the
  script is never consumed.
\<close>

theorem stdin_first_and_short_circuit_witness:
  "try_candidates demo_env list_request cinema_cmds script_answer []
     = (Inr layout_doc, run_answer, [TimedOut]) \<and>
   2 < length run_answer \<and>
   l_outcome (run_answer ! 2) = Completed (layout_text @ ''\<newline>'') ''warning: preview runtime'' \<and>
   strip (layout_text @ ''\<newline>'') \<noteq> [] \<and>
   loads demo_env (strip (layout_text @ ''\<newline>'')) = Inr layout_doc \<and>
   prefix (map sent run_answer) (all_attempts list_request cinema_cmds) \<and>
   replay demo_env script_answer (map sent run_answer) = (run_answer, [TimedOut]) \<and>
   Suc 2 = length run_answer"
proof -
  have run: "try_candidates demo_env list_request cinema_cmds script_answer []
               = (Inr layout_doc, run_answer, [TimedOut])"
    by code_simp
  have a: "2 < length run_answer"
    and b: "l_outcome (run_answer ! 2)
              = Completed (layout_text @ ''\<newline>'') ''warning: preview runtime''"
    and c: "strip (layout_text @ ''\<newline>'') \<noteq> []"
    and d: "loads demo_env (strip (layout_text @ ''\<newline>'')) = Inr layout_doc"
    by code_simp+
  note th = stdin_first_and_short_circuit [OF run]
  from th have p: "prefix (map sent run_answer) (all_attempts list_request cinema_cmds)"
    by (rule conjunct1)
  from th have q: "replay demo_env script_answer (map sent run_answer) = (run_answer, [TimedOut])"
    by (elim conjE)
  from th a b c d have e: "Suc 2 = length run_answer" by blast
  from run a b c d p q e show ?thesis by (intro conjI)
qed


text \<open>
  C2, a run. the authority answers \<^verbatim>\<open>not json\<close> on the second launch; the third
  outcome of the script is never consumed.
\<close>

theorem parse_failure_is_fatal_witness:
  "try_candidates demo_env list_request cinema_cmds script_garbage []
     = (Inl (RuntimeError
               (parse_error Arg [''dotnet'', ''CinemaLogic.dll'', list_request] not_json
                  ''not json'' (Some []))),
        run_garbage, [TimedOut]) \<and>
   1 < length run_garbage \<and>
   l_outcome (run_garbage ! 1) = Completed ''not json'' [] \<and>
   strip ''not json'' \<noteq> [] \<and>
   loads demo_env (strip ''not json'') = Inl not_json \<and>
   Suc 1 = length run_garbage \<and>
   sublist ''not json''
     (parse_error (l_mode (run_garbage ! 1)) (l_argv (run_garbage ! 1)) not_json ''not json''
        (Some [])) \<and>
   sublist (join '' '' (l_argv (run_garbage ! 1)))
     (parse_error (l_mode (run_garbage ! 1)) (l_argv (run_garbage ! 1)) not_json ''not json''
        (Some [])) \<and>
   replay demo_env script_garbage (map sent run_garbage) = (run_garbage, [TimedOut])"
proof -
  have run: "try_candidates demo_env list_request cinema_cmds script_garbage []
     = (Inl (RuntimeError
               (parse_error Arg [''dotnet'', ''CinemaLogic.dll'', list_request] not_json
                  ''not json'' (Some []))),
        run_garbage, [TimedOut])"
    by code_simp
  have a: "1 < length run_garbage"
    and b: "l_outcome (run_garbage ! 1) = Completed ''not json'' []"
    and c: "strip ''not json'' \<noteq> []"
    and d: "loads demo_env (strip ''not json'') = Inl not_json"
    by code_simp+
  note th = parse_failure_is_fatal [OF run a b c d]
  from th have e: "Suc 1 = length run_garbage" by (rule conjunct1)
  from th have f: "sublist ''not json''
     (parse_error (l_mode (run_garbage ! 1)) (l_argv (run_garbage ! 1)) not_json ''not json''
        (Some []))" by (elim conjE)
  from th have g: "sublist (join '' '' (l_argv (run_garbage ! 1)))
     (parse_error (l_mode (run_garbage ! 1)) (l_argv (run_garbage ! 1)) not_json ''not json''
        (Some []))" by (elim conjE)
  from th have h: "replay demo_env script_garbage (map sent run_garbage) = (run_garbage, [TimedOut])"
    by (elim conjE)
  from run a b c d e f g h show ?thesis by (intro conjI)
qed

text \<open>
  C3, a run. no launcher is installed.
\<close>

theorem all_empty_aggregates_diagnostics_witness:
  "try_candidates demo_env list_request cinema_cmds [] []
     = (Inl (exhausted (concat (map diag_lines run_missing))), run_missing, []) \<and>
   list_all (\<lambda>l. \<not> usable l) run_missing \<and>
   list_all (\<lambda>l. l_outcome l = NotFound no_such_file) run_missing \<and>
   map sent run_missing = all_attempts list_request cinema_cmds \<and>
   (\<exists>fe msg.
      Inl (exhausted (concat (map diag_lines run_missing))) = Inl (RuntimeError msg) \<and>
      (''Command not found: '' @ join '' '' [''dotnet'', ''CinemaLogic.dll''] @ '' -> '' @ fe)
        \<in> set (concat (map diag_lines run_missing)) \<and>
      sublist (''Command not found: '' @ join '' '' [''dotnet'', ''CinemaLogic.dll''] @ '' -> '' @ fe)
        msg) \<and>
   (\<exists>fe msg.
      Inl (exhausted (concat (map diag_lines run_missing))) = Inl (RuntimeError msg) \<and>
      (''Command not found: '' @ join '' '' [dotnet_exe, ''CinemaLogic.dll''] @ '' -> '' @ fe)
        \<in> set (concat (map diag_lines run_missing)) \<and>
      sublist (''Command not found: '' @ join '' '' [dotnet_exe, ''CinemaLogic.dll''] @ '' -> '' @ fe)
        msg)"
proof -
  have run: "try_candidates demo_env list_request cinema_cmds [] []
     = (Inl (exhausted (concat (map diag_lines run_missing))), run_missing, [])"
    by code_simp
  have a: "list_all (\<lambda>l. \<not> usable l) run_missing"
    and b: "list_all (\<lambda>l. l_outcome l = NotFound no_such_file) run_missing"
    by code_simp+
  from a have a': "\<forall>l\<in>set run_missing. \<not> usable l" by (simp add: list_all_iff)
  from b have b': "\<forall>l\<in>set run_missing. \<exists>fe. l_outcome l = NotFound fe"
    by (auto simp: list_all_iff)
  note th = all_empty_aggregates_diagnostics [OF run a']
  from th have c: "map sent run_missing = all_attempts list_request cinema_cmds"
    by (rule conjunct1)
  from th b' have d: "\<forall>cmd\<in>set cinema_cmds. \<exists>fe msg.
      Inl (exhausted (concat (map diag_lines run_missing))) = Inl (RuntimeError msg) \<and>
      (''Command not found: '' @ join '' '' cmd @ '' -> '' @ fe)
        \<in> set (concat (map diag_lines run_missing)) \<and>
      sublist (''Command not found: '' @ join '' '' cmd @ '' -> '' @ fe) msg" by blast
  have m: "[''dotnet'', ''CinemaLogic.dll''] \<in> set cinema_cmds"
    "[dotnet_exe, ''CinemaLogic.dll''] \<in> set cinema_cmds"
    by (simp_all add: cinema_cmds_def)
  from d m(1) have e: "\<exists>fe msg.
      Inl (exhausted (concat (map diag_lines run_missing))) = Inl (RuntimeError msg) \<and>
      (''Command not found: '' @ join '' '' [''dotnet'', ''CinemaLogic.dll''] @ '' -> '' @ fe)
        \<in> set (concat (map diag_lines run_missing)) \<and>
      sublist (''Command not found: '' @ join '' '' [''dotnet'', ''CinemaLogic.dll''] @ '' -> '' @ fe)
        msg" by (rule bspec)
  from d m(2) have f: "\<exists>fe msg.
      Inl (exhausted (concat (map diag_lines run_missing))) = Inl (RuntimeError msg) \<and>
      (''Command not found: '' @ join '' '' [dotnet_exe, ''CinemaLogic.dll''] @ '' -> '' @ fe)
        \<in> set (concat (map diag_lines run_missing)) \<and>
      sublist (''Command not found: '' @ join '' '' [dotnet_exe, ''CinemaLogic.dll''] @ '' -> '' @ fe)
        msg" by (rule bspec)
  from run a b c e f show ?thesis by (intro conjI)
qed

text \<open>
  C8, two runs. in the first, the only launcher prints a usage text on standard error and
  a blank on standard output, the next launch is made, and the error raised at the end
  quotes the usage text; in the second, a launch prints a warning on standard error and
  a layout on standard output, and the layout is the result.
\<close>

theorem stderr_is_diagnostic_only_witness:
  "try_candidates demo_env list_request [[''dotnet'', ''CinemaLogic.dll'']] script_usage []
     = (Inl (RuntimeError usage_report), run_usage, []) \<and>
   l_outcome (run_usage ! 0) = Completed '' '' (''usage: dotnet [options]'' @ ''\<newline>'') \<and>
   strip '' '' = [] \<and>
   strip (''usage: dotnet [options]'' @ ''\<newline>'') = ''usage: dotnet [options]'' \<and>
   \<not> usable (last run_usage) \<and>
   (Suc 0 < length run_usage \<or>
    map sent run_usage = all_attempts list_request [[''dotnet'', ''CinemaLogic.dll'']] \<and>
    Inl (RuntimeError usage_report) = Inl (exhausted ([] @ concat (map diag_lines run_usage)))) \<and>
   diag_lines (run_usage ! 0)
     = [''Command: dotnet CinemaLogic.dll (stdin) produced stderr: usage: dotnet [options]''] \<and>
   sublist ''Command: dotnet CinemaLogic.dll (stdin) produced stderr: usage: dotnet [options]''
     usage_report \<and>
   try_candidates demo_env list_request cinema_cmds script_answer []
     = (Inr layout_doc, run_answer, [TimedOut]) \<and>
   l_outcome (run_answer ! 2)
     = Completed (layout_text @ ''\<newline>'') ''warning: preview runtime'' \<and>
   strip (layout_text @ ''\<newline>'') = layout_text \<and>
   Suc 2 = length run_answer \<and>
   diag_lines (run_answer ! 2)
     = [''Command: '' @ dotnet_exe
          @ '' CinemaLogic.dll (stdin) produced stderr: warning: preview runtime'']"
proof -
  have run: "try_candidates demo_env list_request [[''dotnet'', ''CinemaLogic.dll'']] script_usage []
     = (Inl (RuntimeError usage_report), run_usage, [])"
    by code_simp
  have a: "0 < length run_usage"
    and b: "l_outcome (run_usage ! 0) = Completed '' '' (''usage: dotnet [options]'' @ ''\<newline>'')"
    and c: "strip '' '' = []"
    and d: "strip (''usage: dotnet [options]'' @ ''\<newline>'') = ''usage: dotnet [options]''"
    and u: "\<not> usable (last run_usage)"
    by code_simp+
  have line: "''Command: '' @ join '' '' (l_argv (run_usage ! 0))
                @ '' ('' @ (case l_mode (run_usage ! 0) of Stdin \<Rightarrow> ''stdin'' | Arg \<Rightarrow> ''arg'')
                @ '') produced stderr: '' @ strip (''usage: dotnet [options]'' @ ''\<newline>'')
              = ''Command: dotnet CinemaLogic.dll (stdin) produced stderr: usage: dotnet [options]''"
    by code_simp
  from d have d': "strip (''usage: dotnet [options]'' @ ''\<newline>'') \<noteq> []" by simp
  note th = stderr_is_diagnostic_only [OF run a b]
  from th c have e: "Suc 0 < length run_usage \<or>
    map sent run_usage = all_attempts list_request [[''dotnet'', ''CinemaLogic.dll'']] \<and>
    Inl (RuntimeError usage_report) = Inl (exhausted ([] @ concat (map diag_lines run_usage)))"
    by blast
  from th d' have f: "diag_lines (run_usage ! 0)
     = [''Command: dotnet CinemaLogic.dll (stdin) produced stderr: usage: dotnet [options]'']"
    unfolding line by blast
  from th d' u have "\<exists>msg. Inl (RuntimeError usage_report) = Inl (RuntimeError msg) \<and>
      sublist ''Command: dotnet CinemaLogic.dll (stdin) produced stderr: usage: dotnet [options]''
        msg"
    unfolding line by blast
  then have g: "sublist
       ''Command: dotnet CinemaLogic.dll (stdin) produced stderr: usage: dotnet [options]''
       usage_report"
    by auto
  have run2: "try_candidates demo_env list_request cinema_cmds script_answer []
     = (Inr layout_doc, run_answer, [TimedOut])"
    by code_simp
  have a2: "2 < length run_answer"
    and b2: "l_outcome (run_answer ! 2)
               = Completed (layout_text @ ''\<newline>'') ''warning: preview runtime''"
    and c2: "strip (layout_text @ ''\<newline>'') = layout_text"
    and d2: "strip ''warning: preview runtime'' = ''warning: preview runtime''"
    by code_simp+
  have line2: "''Command: '' @ join '' '' (l_argv (run_answer ! 2))
                @ '' ('' @ (case l_mode (run_answer ! 2) of Stdin \<Rightarrow> ''stdin'' | Arg \<Rightarrow> ''arg'')
                @ '') produced stderr: '' @ strip ''warning: preview runtime''
              = ''Command: '' @ dotnet_exe
                  @ '' CinemaLogic.dll (stdin) produced stderr: warning: preview runtime''"
    by code_simp
  have c2': "strip (layout_text @ ''\<newline>'') \<noteq> []"
    unfolding c2 by code_simp
  from d2 have d2': "strip ''warning: preview runtime'' \<noteq> []" by simp
  note th2 = stderr_is_diagnostic_only [OF run2 a2 b2]
  from th2 c2' have h: "Suc 2 = length run_answer" by blast
  from th2 d2' have k: "diag_lines (run_answer ! 2)
     = [''Command: '' @ dotnet_exe
          @ '' CinemaLogic.dll (stdin) produced stderr: warning: preview runtime'']"
    unfolding line2 by blast
  from run b c d u e f g run2 b2 c2 h k show ?thesis by (intro conjI)
qed

text \<open>
  C5, an instance. the default library name in upper case.
\<close>

theorem launcher_forms_first_witness:
  "path_exists demo_env [] ''CinemaLogic.DLL'' = Inr False \<and>
   is_dll (path_str demo_env ''CinemaLogic.DLL'') \<and>
   (\<exists>cs. resolve_candidates demo_env [] ''CinemaLogic.DLL'' = Inr cs \<and> cs \<noteq> [] \<and>
         take 2 cs = [[''dotnet'', path_str demo_env ''CinemaLogic.DLL''],
                      [dotnet_exe, path_str demo_env ''CinemaLogic.DLL'']])"
proof -
  have a: "path_exists demo_env [] ''CinemaLogic.DLL'' = Inr False"
    and b: "is_dll (path_str demo_env ''CinemaLogic.DLL'')"
    by code_simp+
  from launcher_forms_first [OF a] b
  have c: "\<exists>cs. resolve_candidates demo_env [] ''CinemaLogic.DLL'' = Inr cs \<and> cs \<noteq> [] \<and>
         take 2 cs = [[''dotnet'', path_str demo_env ''CinemaLogic.DLL''],
                      [dotnet_exe, path_str demo_env ''CinemaLogic.DLL'']]"
    by blast
  from a b c show ?thesis by (intro conjI)
qed

text \<open>
  C5, as stated, fails twice. A file name of 304 characters ends in \<^verbatim>\<open>.dll\<close>, yet on Linux
  \<^verbatim>\<open>p.exists()\<close> in line 46 raises \<^verbatim>\<open>OSError\<close> and no list is built. The path
  \<^verbatim>\<open>//host/x.dll\<close> ends in \<^verbatim>\<open>.dll\<close>, yet on Windows \<^verbatim>\<open>str(Path(path))\<close> ends in a
  backslash, the test of line 41 is false, and the first candidate is the bare path.
\<close>

theorem launcher_forms_first_counterexample:
  "is_dll long_name \<and>
   resolve_candidates linux_env [] long_name = Inl (OSError name_too_long) \<and>
   is_dll ''//host/x.dll'' \<and>
   path_str windows_env ''//host/x.dll'' = unc_root \<and>
   resolve_candidates windows_env [] ''//host/x.dll'' = Inr [[unc_root], [''dotnet'', unc_root]]"
  by code_simp

text \<open>
  C10, a run. the response has the status "ok" and no layout; the selection of two
  seats stays.
\<close>

theorem failed_refresh_changes_nothing_witness:
  "call_logic demo_env (logic_path (picking_app [Completed ok_text [], Completed layout_text []]))
     (layout_payload (picking_app [Completed ok_text [], Completed layout_text []]))
     (world (picking_app [Completed ok_text [], Completed layout_text []]))
     = (Inr ok_doc,
        [Launch Stdin [''dotnet'', ''CinemaLogic.dll''] (Some layout_request) (Completed ok_text [])],
        [Completed layout_text []]) \<and>
   py_get ok_doc ''layout'' JNull = Inr JNull \<and>
   \<not> truthy JNull \<and>
   (\<exists>e. refresh_layout demo_env (picking_app [Completed ok_text [], Completed layout_text []])
          = (Some e,
             (picking_app [Completed ok_text [], Completed layout_text []])
               \<lparr>world := [Completed layout_text []],
                launched := launched (picking_app [Completed ok_text [], Completed layout_text []])
                  @ [Launch Stdin [''dotnet'', ''CinemaLogic.dll''] (Some layout_request)
                       (Completed ok_text [])]\<rparr>))"
proof -
  let ?app = "picking_app [Completed ok_text [], Completed layout_text []]"
  have c: "call_logic demo_env (logic_path ?app) (layout_payload ?app) (world ?app)
     = (Inr ok_doc,
        [Launch Stdin [''dotnet'', ''CinemaLogic.dll''] (Some layout_request) (Completed ok_text [])],
        [Completed layout_text []])"
    by code_simp
  have a: "py_get ok_doc ''layout'' JNull = Inr JNull" and b: "\<not> truthy JNull"
    by code_simp+
  from a b have d: "py_get ok_doc ''status'' JNull \<noteq> Inr (JStr ''ok'')
           \<or> (\<exists>l. py_get ok_doc ''layout'' JNull = Inr l \<and> \<not> truthy l)" by blast
  note th = failed_refresh_changes_nothing [OF c d]
  from c a b th show ?thesis by (intro conjI)
qed






lemma sublist_inside:
  assumes "sublist x m"
  shows "sublist x (p @ m @ q)"
proof -
  from assms obtain ps ss where "m = ps @ x @ ss" by (auto simp: sublist_def)
  then have "p @ m @ q = (p @ ps) @ x @ (ss @ q)" by simp
  then show ?thesis unfolding sublist_def by blast
qed

lemma distinct_singleton_list:
  assumes "distinct xs" and "set xs = {x}"
  shows "xs = [x]"
proof (cases xs)
  case Nil
  with assms show ?thesis by simp
next
  case (Cons a rest)
  with assms have a: "a = x" and sub: "set rest \<subseteq> {x}" and out: "x \<notin> set rest"
    by auto
  have "rest = []"
  proof (cases rest)
    case Nil
    then show ?thesis .
  next
    case (Cons b more)
    with sub have "b = x" by simp
    with Cons out show ?thesis by simp
  qed
  with Cons a show ?thesis by simp
qed

lemma delete_response_launches:
  assumes "delete_response env resp a = (x, a')"
  shows "\<exists>ls2. launched a' = launched a @ ls2 \<and>
               (\<forall>l\<in>set ls2. carries (dumps env (layout_payload a)) l)"
proof (cases x)
  case None
  with delete_response_refresh [OF assms] have "refreshed_from env a a'" by simp
  then obtain r ls w2 where
    c: "call_logic env (logic_path a) (layout_payload a) (world a) = (r, ls, w2)"
    and l: "launched a' = launched a @ ls"
    by (auto simp: refreshed_from_def split: prod.splits)
  from call_logic_carries [OF c] l show ?thesis by blast
next
  case (Some e)
  with delete_response_refresh [OF assms] have "a' = a" by simp
  then show ?thesis by simp
qed

lemma on_delete_launches:
  assumes "reserved_to_delete app \<noteq> {}"
  shows "\<exists>res ls w1 ls2.
           call_logic env (logic_path app) (delete_payload (reserved_to_delete app)) (world app)
             = (res, ls, w1) \<and>
           launched (snd (on_delete env True app)) = launched app @ ls @ ls2 \<and>
           (\<forall>l\<in>set ls. carries (dumps env (delete_payload (reserved_to_delete app))) l) \<and>
           (\<forall>l\<in>set ls2. carries (dumps env (layout_payload app)) l)"
proof -
  from assms have sel: "selected app \<noteq> {}" by (auto simp: reserved_to_delete_def)
  have a0: "logic_path (before_delete app) = logic_path app"
    "world (before_delete app) = world app" "launched (before_delete app) = launched app"
    "layout_payload (before_delete app) = layout_payload app"
    by (simp_all add: before_delete_def show_dialog_def layout_payload_def)
  obtain res app1 where
    inv: "invoke env (delete_payload (reserved_to_delete app)) (before_delete app) = (res, app1)"
    by (cases "invoke env (delete_payload (reserved_to_delete app)) (before_delete app)") auto
  from invoke_effects [OF inv] a0 obtain ls w1 where
    c: "call_logic env (logic_path app) (delete_payload (reserved_to_delete app)) (world app)
          = (res, ls, w1)"
    and l1: "launched app1 = launched app @ ls"
    and p1: "layout_payload app1 = layout_payload app"
    by (auto simp: layout_payload_def)
  have "\<exists>ls2. launched (snd (on_delete env True app)) = launched app1 @ ls2 \<and>
              (\<forall>l\<in>set ls2. carries (dumps env (layout_payload app1)) l)"
  proof (cases res)
    case (Inl e)
    then show ?thesis using assms sel by (simp add: on_delete_def inv show_dialog_def)
  next
    case (Inr resp)
    obtain x a' where d: "delete_response env resp app1 = (x, a')"
      by (cases "delete_response env resp app1") auto
    from delete_response_launches [OF d] show ?thesis
      using assms sel Inr by (simp add: on_delete_def inv d)
  qed
  then obtain ls2 where "launched (snd (on_delete env True app)) = launched app @ ls @ ls2"
    and "\<forall>l\<in>set ls2. carries (dumps env (layout_payload app)) l"
    using l1 p1 by auto
  with c call_logic_carries [OF c] show ?thesis by blast
qed

lemma on_delete_warns:
  assumes "unreserved_selected app \<noteq> {}"
  shows "(if reserved_to_delete app = {} then none_reserved_warning app else skipped_warning app)
           \<in> set (shown (snd (on_delete env confirm app)))"
proof (cases "reserved_to_delete app = {}")
  case True
  from assms have sel: "selected app \<noteq> {}" by (auto simp: unreserved_selected_def)
  from True assms sel show ?thesis by (simp add: on_delete_def show_dialog_def)
next
  case False
  from assms have sel: "selected app \<noteq> {}" by (auto simp: unreserved_selected_def)
  have w: "skipped_warning app \<in> set (shown (before_delete app))"
    using assms by (simp add: before_delete_def show_dialog_def)
  show ?thesis
  proof (cases confirm)
    case no: False
    then show ?thesis using False sel w by (simp add: on_delete_def)
  next
    case True
    with on_delete_confirmed [OF False, of env] w False show ?thesis by auto
  qed
qed

text \<open>
  C6. The selected seats whose pair is in the reserved set and those whose pair is not
  make up the selection and have no seat in common. When no selected seat is reserved,
  or the operator declines, on_delete returns without a launch and leaves the world as
  it was. When some selected seat is not reserved, a warning is among the dialogs shown
  whose text is a heading, the labels row-column of exactly those seats in ascending
  order, separated by a comma and a blank, and a closing line; the label of every such
  seat is part of the text. When some selected seat is reserved and the operator
  confirms, the request is the action delete_reservations with one object of row and
  column per reserved selected seat, in ascending order and without repetition; the
  launches of the handler are those of call_logic on that request, each of which carries
  it, followed only by launches that carry the layout request.
\<close>

theorem delete_partitions_selection:
  assumes fin: "finite (selected app)"
  shows "eligible app \<union> ineligible app = selected app \<and>
         eligible app \<inter> ineligible app = {} \<and>
         (eligible app = {} \<or> \<not> confirm \<longrightarrow>
            fst (on_delete env confirm app) = None \<and>
            world (snd (on_delete env confirm app)) = world app \<and>
            launched (snd (on_delete env confirm app)) = launched app) \<and>
         (ineligible app \<noteq> {} \<longrightarrow>
            (\<exists>msg.
               msg = (if eligible app = {}
                      then ''The following seats are not reserved and cannot be deleted:\<newline>\<newline>''
                      else ''The following seats are not reserved and will be skipped:\<newline>\<newline>'')
                     @ join '', '' (map (\<lambda>s. str_int (fst s) @ ''-'' @ str_int (snd s))
                                     (sorted_list_of_set (ineligible app)))
                     @ (if eligible app = {}
                        then ''\<newline>\<newline>Please select RESERVED (red) seats to delete.''
                        else ''\<newline>\<newline>Only reserved seats will be deleted.'') \<and>
               ShowWarning (if eligible app = {} then ''No Reserved Seats Selected''
                            else ''Some Seats Not Reserved'') (JStr msg)
                 \<in> set (shown (snd (on_delete env confirm app))) \<and>
               (\<forall>s\<in>ineligible app. sublist (str_int (fst s) @ ''-'' @ str_int (snd s)) msg))) \<and>
         (eligible app \<noteq> {} \<and> confirm \<longrightarrow>
            (\<exists>seats req res ls w1 ls2.
               sorted seats \<and> distinct seats \<and> set seats = eligible app \<and>
               req = JObj [(''action'', JStr ''delete_reservations''),
                           (''seats'',
                            JArr (map (\<lambda>s. JObj [(''row'', JInt (fst s)), (''col'', JInt (snd s))])
                                    seats))] \<and>
               call_logic env (logic_path app) req (world app) = (res, ls, w1) \<and>
               launched (snd (on_delete env confirm app)) = launched app @ ls @ ls2 \<and>
               (\<forall>l\<in>set ls. carries (dumps env req) l) \<and>
               (\<forall>l\<in>set ls2.
                  carries (dumps env (JObj [(''action'', JStr ''get_layout''),
                                            (''rows'', rows app), (''cols'', cols app)])) l)))"
proof -
  have rd: "reserved_to_delete app = eligible app"
    by (auto simp: reserved_to_delete_def eligible_def seat_key_def)
  have us: "unreserved_selected app = ineligible app"
    by (auto simp: unreserved_selected_def ineligible_def seat_key_def)
  show ?thesis
  proof (intro conjI impI)
  show "eligible app \<union> ineligible app = selected app"
    by (auto simp: eligible_def ineligible_def)
  show "eligible app \<inter> ineligible app = {}"
    by (auto simp: eligible_def ineligible_def)
next
  assume "eligible app = {} \<or> \<not> confirm"
  then have "reserved_to_delete app = {} \<or> \<not> confirm"
    by (simp add: rd)
  then show "fst (on_delete env confirm app) = None"
    and "world (snd (on_delete env confirm app)) = world app"
    and "launched (snd (on_delete env confirm app)) = launched app"
    by (auto simp: on_delete_def show_dialog_def before_delete_def)
next
  assume un: "ineligible app \<noteq> {}"
  define labels where
    "labels = map (\<lambda>s. str_int (fst s) @ ''-'' @ str_int (snd s))
                (sorted_list_of_set (ineligible app))"
  define msg where
    "msg = (if eligible app = {}
            then ''The following seats are not reserved and cannot be deleted:\<newline>\<newline>''
            else ''The following seats are not reserved and will be skipped:\<newline>\<newline>'')
           @ join '', '' labels
           @ (if eligible app = {}
              then ''\<newline>\<newline>Please select RESERVED (red) seats to delete.''
              else ''\<newline>\<newline>Only reserved seats will be deleted.'')"
  from un have "unreserved_selected app \<noteq> {}" by (simp add: us)
  from on_delete_warns [OF this, of env confirm]
  have shown: "ShowWarning (if eligible app = {} then ''No Reserved Seats Selected''
                            else ''Some Seats Not Reserved'') (JStr msg)
                 \<in> set (shown (snd (on_delete env confirm app)))"
    by (cases "eligible app = {}")
       (simp_all add: rd us
          none_reserved_warning_def skipped_warning_def seat_list_def msg_def labels_def)
  have fin': "finite (ineligible app)" using fin by (simp add: ineligible_def)
  have each: "\<forall>s\<in>ineligible app. sublist (str_int (fst s) @ ''-'' @ str_int (snd s)) msg"
  proof
    fix s assume "s \<in> ineligible app"
    with fin' have "str_int (fst s) @ ''-'' @ str_int (snd s) \<in> set labels"
      by (simp add: labels_def)
    then have "sublist (str_int (fst s) @ ''-'' @ str_int (snd s)) (join '', '' labels)"
      by (rule sublist_join)
    then show "sublist (str_int (fst s) @ ''-'' @ str_int (snd s)) msg"
      unfolding msg_def by (rule sublist_inside)
  qed
  from shown each show "\<exists>msg.
               msg = (if eligible app = {}
                      then ''The following seats are not reserved and cannot be deleted:\<newline>\<newline>''
                      else ''The following seats are not reserved and will be skipped:\<newline>\<newline>'')
                     @ join '', '' (map (\<lambda>s. str_int (fst s) @ ''-'' @ str_int (snd s))
                                     (sorted_list_of_set (ineligible app)))
                     @ (if eligible app = {}
                        then ''\<newline>\<newline>Please select RESERVED (red) seats to delete.''
                        else ''\<newline>\<newline>Only reserved seats will be deleted.'') \<and>
               ShowWarning (if eligible app = {} then ''No Reserved Seats Selected''
                            else ''Some Seats Not Reserved'') (JStr msg)
                 \<in> set (shown (snd (on_delete env confirm app))) \<and>
               (\<forall>s\<in>ineligible app. sublist (str_int (fst s) @ ''-'' @ str_int (snd s)) msg)"
    unfolding msg_def labels_def by blast
next
  assume h: "eligible app \<noteq> {} \<and> confirm"
  define seats where "seats = sorted_list_of_set (eligible app)"
  define req where
    "req = JObj [(''action'', JStr ''delete_reservations''),
                 (''seats'',
                  JArr (map (\<lambda>s. JObj [(''row'', JInt (fst s)), (''col'', JInt (snd s))]) seats))]"
  have fin': "finite (eligible app)" using fin by (simp add: eligible_def)
  then have s: "sorted seats" "distinct seats" "set seats = eligible app"
    by (simp_all add: seats_def)
  have "(\<lambda>s. JObj [(''row'', JInt (fst s)), (''col'', JInt (snd s))]) = seat_dto"
    by (rule ext) (simp add: seat_dto_def)
  then have p: "delete_payload (reserved_to_delete app) = req"
    by (simp add: delete_payload_def rd req_def seats_def)
  have q: "layout_payload app
             = JObj [(''action'', JStr ''get_layout''), (''rows'', rows app), (''cols'', cols app)]"
    by (simp add: layout_payload_def)
  from h have ne: "reserved_to_delete app \<noteq> {}" and c: "confirm"
    by (simp_all add: rd)
  from on_delete_launches [OF ne, of env] obtain res ls w1 ls2 where
    "call_logic env (logic_path app) req (world app) = (res, ls, w1)"
    "launched (snd (on_delete env confirm app)) = launched app @ ls @ ls2"
    "\<forall>l\<in>set ls. carries (dumps env req) l"
    "\<forall>l\<in>set ls2.
        carries (dumps env (JObj [(''action'', JStr ''get_layout''),
                                  (''rows'', rows app), (''cols'', cols app)])) l"
    unfolding p q using c by auto
  with s show "\<exists>seats req res ls w1 ls2.
               sorted seats \<and> distinct seats \<and> set seats = eligible app \<and>
               req = JObj [(''action'', JStr ''delete_reservations''),
                           (''seats'',
                            JArr (map (\<lambda>s. JObj [(''row'', JInt (fst s)), (''col'', JInt (snd s))])
                                    seats))] \<and>
               call_logic env (logic_path app) req (world app) = (res, ls, w1) \<and>
               launched (snd (on_delete env confirm app)) = launched app @ ls @ ls2 \<and>
               (\<forall>l\<in>set ls. carries (dumps env req) l) \<and>
               (\<forall>l\<in>set ls2.
                  carries (dumps env (JObj [(''action'', JStr ''get_layout''),
                                            (''rows'', rows app), (''cols'', cols app)])) l)"
    unfolding req_def by blast
qed
qed

text \<open>
  C6, three runs. seat 1-1 is reserved and selected, seat 2-2 only selected; the operator
  confirms in the first run and declines in the second. In the third, seat 1-1 is
  selected and no seat is reserved.
\<close>

theorem delete_partitions_selection_witness:
  "finite (selected deleting_app) \<and>
   eligible deleting_app = {(1, 1)} \<and>
   ineligible deleting_app = {(2, 2)} \<and>
   ShowWarning ''Some Seats Not Reserved''
     (JStr (''The following seats are not reserved and will be skipped:\<newline>\<newline>''
              @ ''2-2'' @ ''\<newline>\<newline>Only reserved seats will be deleted.''))
     \<in> set (shown (snd (on_delete demo_env True deleting_app))) \<and>
   (\<exists>res ls w1 ls2.
      call_logic demo_env (logic_path deleting_app)
        (JObj [(''action'', JStr ''delete_reservations''),
               (''seats'', JArr [JObj [(''row'', JInt 1), (''col'', JInt 1)]])])
        (world deleting_app) = (res, ls, w1) \<and>
      launched (snd (on_delete demo_env True deleting_app)) = launched deleting_app @ ls @ ls2 \<and>
      list_all (carries delete_request) ls \<and>
      list_all (carries layout_request) ls2) \<and>
   launched (snd (on_delete demo_env True deleting_app))
     = [Launch Stdin [''dotnet'', ''CinemaLogic.dll''] (Some delete_request)
          (Completed ok_text []),
        Launch Stdin [''dotnet'', ''CinemaLogic.dll''] (Some layout_request)
          (Completed layout_text [])] \<and>
   shown (snd (on_delete demo_env True deleting_app))
     = [ShowWarning ''Some Seats Not Reserved''
          (JStr (''The following seats are not reserved and will be skipped:\<newline>\<newline>''
                   @ ''2-2'' @ ''\<newline>\<newline>Only reserved seats will be deleted.'')),
        AskYesNo ''Confirm Deletion''
          (''Are you sure you want to delete reservations for the following RESERVED seats?''
             @ ''\<newline>\<newline>'' @ ''1-1'' @ ''\<newline>\<newline>This action cannot be undone.''),
        ShowInfo ''Deleted'' (JStr ''Reservations deleted successfully.'')] \<and>
   fst (on_delete demo_env False deleting_app) = None \<and>
   world (snd (on_delete demo_env False deleting_app)) = world deleting_app \<and>
   launched (snd (on_delete demo_env False deleting_app)) = launched deleting_app \<and>
   finite (selected (lone_app [])) \<and>
   eligible (lone_app []) = {} \<and>
   ineligible (lone_app []) = {(1, 1)} \<and>
   ShowWarning ''No Reserved Seats Selected''
     (JStr (''The following seats are not reserved and cannot be deleted:\<newline>\<newline>''
              @ ''1-1'' @ ''\<newline>\<newline>Please select RESERVED (red) seats to delete.''))
     \<in> set (shown (snd (on_delete demo_env True (lone_app [])))) \<and>
   shown (snd (on_delete demo_env True (lone_app [])))
     = [ShowWarning ''No Reserved Seats Selected''
          (JStr (''The following seats are not reserved and cannot be deleted:\<newline>\<newline>''
                   @ ''1-1'' @ ''\<newline>\<newline>Please select RESERVED (red) seats to delete.''))] \<and>
   fst (on_delete demo_env True (lone_app [])) = None \<and>
   launched (snd (on_delete demo_env True (lone_app []))) = launched (lone_app [])"
proof -
  have fin: "finite (selected deleting_app)"
    by (simp add: deleting_app_def picking_app_def)
  have e: "eligible deleting_app = {(1, 1)}" and i: "ineligible deleting_app = {(2, 2)}"
    by (auto simp: eligible_def ineligible_def deleting_app_def picking_app_def)
  note th = delete_partitions_selection [OF fin, where env = demo_env and confirm = True]
  note th' = delete_partitions_selection [OF fin, where env = demo_env and confirm = False]
  have labels: "join '', '' (map (\<lambda>s. str_int (fst s) @ ''-'' @ str_int (snd s))
                              (sorted_list_of_set {(2::int, 2::int)})) = ''2-2''"
    by code_simp
  from th have "\<exists>msg.
      msg = ''The following seats are not reserved and will be skipped:\<newline>\<newline>''
              @ ''2-2'' @ ''\<newline>\<newline>Only reserved seats will be deleted.'' \<and>
      ShowWarning ''Some Seats Not Reserved'' (JStr msg)
        \<in> set (shown (snd (on_delete demo_env True deleting_app)))"
    unfolding e i labels by simp
  then have w: "ShowWarning ''Some Seats Not Reserved''
     (JStr (''The following seats are not reserved and will be skipped:\<newline>\<newline>''
              @ ''2-2'' @ ''\<newline>\<newline>Only reserved seats will be deleted.''))
     \<in> set (shown (snd (on_delete demo_env True deleting_app)))"
    by blast
  have dr: "dumps demo_env
              (JObj [(''action'', JStr ''delete_reservations''),
                     (''seats'', JArr [JObj [(''row'', JInt 1), (''col'', JInt 1)]])])
            = delete_request"
    by code_simp
  have lr: "dumps demo_env
              (JObj [(''action'', JStr ''get_layout''),
                     (''rows'', rows deleting_app), (''cols'', cols deleting_app)])
            = layout_request"
    by code_simp
  from th have "\<exists>seats req res ls w1 ls2.
      sorted seats \<and> distinct seats \<and> set seats = {(1, 1)} \<and>
      req = JObj [(''action'', JStr ''delete_reservations''),
                  (''seats'',
                   JArr (map (\<lambda>s. JObj [(''row'', JInt (fst s)), (''col'', JInt (snd s))])
                           seats))] \<and>
      call_logic demo_env (logic_path deleting_app) req (world deleting_app) = (res, ls, w1) \<and>
      launched (snd (on_delete demo_env True deleting_app)) = launched deleting_app @ ls @ ls2 \<and>
      (\<forall>l\<in>set ls. carries (dumps demo_env req) l) \<and>
      (\<forall>l\<in>set ls2.
         carries (dumps demo_env (JObj [(''action'', JStr ''get_layout''),
                                        (''rows'', rows deleting_app),
                                        (''cols'', cols deleting_app)])) l)"
    unfolding e by simp
  then obtain seats req res ls w1 ls2 where
    s: "distinct seats" "set seats = {(1, 1)}"
    and r: "req = JObj [(''action'', JStr ''delete_reservations''),
                  (''seats'',
                   JArr (map (\<lambda>s. JObj [(''row'', JInt (fst s)), (''col'', JInt (snd s))])
                           seats))]"
    and c: "call_logic demo_env (logic_path deleting_app) req (world deleting_app) = (res, ls, w1)"
    and l: "launched (snd (on_delete demo_env True deleting_app)) = launched deleting_app @ ls @ ls2"
    and c1: "\<forall>l\<in>set ls. carries (dumps demo_env req) l"
    and c2: "\<forall>l\<in>set ls2.
         carries (dumps demo_env (JObj [(''action'', JStr ''get_layout''),
                                        (''rows'', rows deleting_app),
                                        (''cols'', cols deleting_app)])) l"
    by blast
  from distinct_singleton_list [OF s] r have req: "req = JObj [(''action'', JStr ''delete_reservations''),
               (''seats'', JArr [JObj [(''row'', JInt 1), (''col'', JInt 1)]])]"
    by simp
  from c1 have c1': "list_all (carries delete_request) ls"
    unfolding req dr by (simp add: list_all_iff)
  from c2 have c2': "list_all (carries layout_request) ls2"
    unfolding lr by (simp add: list_all_iff)
  from c l c1' c2' have x: "\<exists>res ls w1 ls2.
      call_logic demo_env (logic_path deleting_app)
        (JObj [(''action'', JStr ''delete_reservations''),
               (''seats'', JArr [JObj [(''row'', JInt 1), (''col'', JInt 1)]])])
        (world deleting_app) = (res, ls, w1) \<and>
      launched (snd (on_delete demo_env True deleting_app)) = launched deleting_app @ ls @ ls2 \<and>
      list_all (carries delete_request) ls \<and>
      list_all (carries layout_request) ls2"
    unfolding req by blast
  have run: "launched (snd (on_delete demo_env True deleting_app))
     = [Launch Stdin [''dotnet'', ''CinemaLogic.dll''] (Some delete_request)
          (Completed ok_text []),
        Launch Stdin [''dotnet'', ''CinemaLogic.dll''] (Some layout_request)
          (Completed layout_text [])]"
    by code_simp
  have dlg: "shown (snd (on_delete demo_env True deleting_app))
     = [ShowWarning ''Some Seats Not Reserved''
          (JStr (''The following seats are not reserved and will be skipped:\<newline>\<newline>''
                   @ ''2-2'' @ ''\<newline>\<newline>Only reserved seats will be deleted.'')),
        AskYesNo ''Confirm Deletion''
          (''Are you sure you want to delete reservations for the following RESERVED seats?''
             @ ''\<newline>\<newline>'' @ ''1-1'' @ ''\<newline>\<newline>This action cannot be undone.''),
        ShowInfo ''Deleted'' (JStr ''Reservations deleted successfully.'')]"
    by code_simp
  from th' have n: "fst (on_delete demo_env False deleting_app) = None"
    "world (snd (on_delete demo_env False deleting_app)) = world deleting_app"
    "launched (snd (on_delete demo_env False deleting_app)) = launched deleting_app"
    by blast+
  have fin2: "finite (selected (lone_app []))"
    by (simp add: lone_app_def)
  have e2: "eligible (lone_app []) = {}" and i2: "ineligible (lone_app []) = {(1, 1)}"
    by (auto simp: eligible_def ineligible_def lone_app_def demo_app_def initial_app_def)
  note th2 = delete_partitions_selection [OF fin2, where env = demo_env and confirm = True]
  have labels2: "join '', '' (map (\<lambda>s. str_int (fst s) @ ''-'' @ str_int (snd s))
                               (sorted_list_of_set {(1::int, 1::int)})) = ''1-1''"
    by code_simp
  from th2 have "\<exists>msg.
      msg = ''The following seats are not reserved and cannot be deleted:\<newline>\<newline>''
              @ ''1-1'' @ ''\<newline>\<newline>Please select RESERVED (red) seats to delete.'' \<and>
      ShowWarning ''No Reserved Seats Selected'' (JStr msg)
        \<in> set (shown (snd (on_delete demo_env True (lone_app []))))"
    unfolding e2 i2 labels2 by simp
  then have w2: "ShowWarning ''No Reserved Seats Selected''
     (JStr (''The following seats are not reserved and cannot be deleted:\<newline>\<newline>''
              @ ''1-1'' @ ''\<newline>\<newline>Please select RESERVED (red) seats to delete.''))
     \<in> set (shown (snd (on_delete demo_env True (lone_app []))))"
    by blast
  have dlg2: "shown (snd (on_delete demo_env True (lone_app [])))
     = [ShowWarning ''No Reserved Seats Selected''
          (JStr (''The following seats are not reserved and cannot be deleted:\<newline>\<newline>''
                   @ ''1-1'' @ ''\<newline>\<newline>Please select RESERVED (red) seats to delete.''))]"
    by code_simp
  from th2 e2 have n2: "fst (on_delete demo_env True (lone_app [])) = None"
    "launched (snd (on_delete demo_env True (lone_app []))) = launched (lone_app [])"
    by blast+
  from fin e i w x run dlg n fin2 e2 i2 w2 dlg2 n2 show ?thesis by (intro conjI)
qed

end
